theory Spec2Isabelle
  imports Complex_Main
begin

section \<open>Python values\<close>

text \<open>
  A Python \<open>str\<close> is a sequence of Unicode code points, so it is modelled as a list of
  natural numbers; \<open>lit\<close> turns an ASCII literal into such a list.  A \<open>float\<close> variable
  of the program holds a finite value and is modelled by the rational number it denotes;
  a segment whose times are NaN or infinite is outside the model.  The rounding of a
  binary64 operation's exact result to a representable number is not computed here: it
  is the parameter \<open>fl\<close> of every function that performs such an operation.  Whether
  the result is finite is computed where it can fail to be, in the product of line 15
  (\<open>float_mul\<close> below); the subtraction of line 83 has operands
  \<open>0 \<le> last_t \<le> new_t\<close>, so its result is finite.
\<close>

type_synonym pystr = "nat list"

definition lit :: "string \<Rightarrow> pystr" where
  "lit s = map of_char s"

text \<open>\<open>str.isspace\<close> for one code point: the whitespace table of CPython.\<close>

definition isspace :: "nat \<Rightarrow> bool" where
  "isspace c =
     ((9 \<le> c \<and> c \<le> 13) \<or> (28 \<le> c \<and> c \<le> 32) \<or> c = 133 \<or> c = 160 \<or> c = 5760
      \<or> (8192 \<le> c \<and> c \<le> 8202) \<or> c = 8232 \<or> c = 8233 \<or> c = 8239 \<or> c = 8287
      \<or> c = 12288)"

text \<open>\<open>s.strip()\<close>: leading and trailing whitespace removed.\<close>

definition strip :: "pystr \<Rightarrow> pystr" where
  "strip s = rev (dropWhile isspace (rev (dropWhile isspace s)))"

text \<open>\<open>sep.join(xs)\<close>.\<close>

fun join :: "pystr \<Rightarrow> pystr list \<Rightarrow> pystr" where
  "join sep [] = []"
| "join sep [x] = x"
| "join sep (x # y # ys) = x @ sep @ join sep (y # ys)"

text \<open>\<open>str(n)\<close> for a non-negative integer: its decimal digits.\<close>

definition digit_char :: "nat \<Rightarrow> nat" where
  "digit_char d = 48 + d"

fun str_nat :: "nat \<Rightarrow> pystr" where
  "str_nat n = (if n < 10 then [digit_char n] else str_nat (n div 10) @ [digit_char (n mod 10)])"

declare str_nat.simps [simp del]

text \<open>
  The format specification \<open>0wd\<close> (as in \<open>f"{h:02d}"\<close>): zero padding to width \<open>w\<close>,
  the sign counted in the width and written before the zeros.
\<close>

definition zpad :: "nat \<Rightarrow> pystr \<Rightarrow> pystr" where
  "zpad w s = replicate (w - length s) 48 @ s"

definition format_0d :: "nat \<Rightarrow> int \<Rightarrow> pystr" where
  "format_0d w n =
     (if n < 0 then 45 # zpad (w - 1) (str_nat (nat (- n))) else zpad w (str_nat (nat n)))"

text \<open>\<open>round(x)\<close> with one argument: the nearest integer, a tie going to the even one.\<close>

definition py_round :: "rat \<Rightarrow> int" where
  "py_round x =
     (let f = \<lfloor>x\<rfloor>; r = x - of_int f
      in if r < 1 / 2 then f else if 1 / 2 < r then f + 1 else if even f then f else f + 1)"

text \<open>
  The product \<open>a * b\<close> of two finite binary64 numbers.  The exact product is rounded
  to the nearest representable number; one of magnitude \<open>2^1024 - 2^970\<close> or more (the
  largest finite number plus half a unit in its last place) rounds to an infinity,
  which is the result \<open>None\<close>.
\<close>

definition float_overflows :: "rat \<Rightarrow> bool" where
  "float_overflows x = (2 ^ 1024 - 2 ^ 970 \<le> \<bar>x\<bar>)"

definition float_mul :: "(rat \<Rightarrow> rat) \<Rightarrow> rat \<Rightarrow> rat \<Rightarrow> rat option" where
  "float_mul fl a b = (if float_overflows (a * b) then None else Some (fl (a * b)))"

text \<open>Reading a string of decimal digits back, used to state what a field denotes.\<close>

definition is_digit :: "nat \<Rightarrow> bool" where
  "is_digit c = (48 \<le> c \<and> c \<le> 57)"

fun digits_value :: "nat \<Rightarrow> pystr \<Rightarrow> nat" where
  "digits_value acc [] = acc"
| "digits_value acc (c # cs) = digits_value (10 * acc + (c - 48)) cs"

section \<open>Paths and exceptions\<close>

text \<open>
  A resolved \<open>pathlib.Path\<close>: the components below the root and the final component
  \<open>name\<close>, which is empty for the root itself.  \<open>path_suffix\<close> and \<open>with_suffix\<close> are
  the library's \<open>PurePath.suffix\<close> and \<open>PurePath.with_suffix\<close>.
\<close>

datatype path = Path (path_parents: "pystr list") (path_name: pystr)

definition str_path :: "path \<Rightarrow> pystr" where
  "str_path p = concat (map (\<lambda>d. 47 # d) (path_parents p)) @ 47 # path_name p"

text \<open>\<open>s.rfind(c)\<close>: the last index of \<open>c\<close>, or \<open>-1\<close>.\<close>

definition rfind :: "nat \<Rightarrow> pystr \<Rightarrow> int" where
  "rfind c s =
     (if c \<in> set s then int (length s) - 1 - int (length (takeWhile (\<lambda>x. x \<noteq> c) (rev s)))
      else - 1)"

definition path_suffix :: "path \<Rightarrow> pystr" where
  "path_suffix p =
     (let name = path_name p; i = rfind 46 name
      in if 0 < i \<and> i < int (length name) - 1 then drop (nat i) name else [])"

datatype error =
  FileNotFoundError pystr
| ValueError
| CalledProcessError int
| ModelError pystr
| OSError path
| UnicodeEncodeError
| OverflowError

definition with_suffix :: "path \<Rightarrow> pystr \<Rightarrow> error + path" where
  "with_suffix p sfx =
     (if 47 \<in> set sfx then Inl ValueError
      else if (sfx \<noteq> [] \<and> take 1 sfx \<noteq> [46]) \<or> sfx = [46] then Inl ValueError
      else let name = path_name p in
        if name = [] then Inl ValueError
        else let old_suffix = path_suffix p in
          if old_suffix = [] then Inr (Path (path_parents p) (name @ sfx))
          else Inr (Path (path_parents p) (take (length name - length old_suffix) name @ sfx)))"

section \<open>Subtitle timestamps (transcribe.py, lines 13-22)\<close>

text \<open>
  Line 15 is \<open>int(round(seconds * 1000))\<close>: when the product is infinite, \<open>round\<close>
  raises \<open>OverflowError\<close>.
\<close>

definition format_srt_time :: "(rat \<Rightarrow> rat) \<Rightarrow> rat \<Rightarrow> error + pystr" where
  "format_srt_time fl seconds =
     (case float_mul fl seconds 1000 of
        None \<Rightarrow> Inl OverflowError
      | Some x \<Rightarrow>
          (let ms = py_round x;
               h = ms div 3600000;
               ms = ms mod 3600000;
               m = ms div 60000;
               ms = ms mod 60000;
               s = ms div 1000;
               ms = ms mod 1000
           in Inr (format_0d 2 h @ lit '':'' @ format_0d 2 m @ lit '':'' @ format_0d 2 s
                     @ lit '','' @ format_0d 3 ms)))"

section \<open>Segments and the progress loop (transcribe.py, lines 73-88)\<close>

text \<open>
  A segment of the recognition model (the fields \<open>start\<close>, \<open>end\<close> and \<open>text\<close> of the
  source) and the summary \<open>info\<close> returned with the segment generator; the language and
  the duration may be \<open>None\<close>.
\<close>

record segment =
  seg_start :: rat
  seg_end :: rat
  seg_text :: pystr

record transcription_info =
  info_language :: "pystr option"
  info_duration :: "rat option"

text \<open>
  The local variables of the loop: the list \<open>segs\<close>, the coverage \<open>last_t\<close>, and the
  arguments passed to \<open>pbar.update\<close> so far, oldest first.
\<close>

record loop_state =
  segs :: "segment list"
  last_t :: rat
  updates :: "rat list"

definition initial_loop_state :: loop_state where
  "initial_loop_state = \<lparr>segs = [], last_t = 0, updates = []\<rparr>"

text \<open>\<open>float(info.duration) if info.duration else 0.0\<close>\<close>

definition total_duration :: "transcription_info \<Rightarrow> rat" where
  "total_duration info =
     (case info_duration info of None \<Rightarrow> 0 | Some d \<Rightarrow> if d \<noteq> 0 then d else 0)"

text \<open>The body of the loop under the progress bar (lines 81-85).\<close>

definition progress_step :: "(rat \<Rightarrow> rat) \<Rightarrow> loop_state \<Rightarrow> segment \<Rightarrow> loop_state" where
  "progress_step fl st seg =
     (let st1 = st\<lparr>segs := segs st @ [seg]\<rparr>;
          new_t = max (last_t st1) (seg_end seg);
          st2 = st1\<lparr>updates := updates st1 @ [max 0 (fl (new_t - last_t st1))]\<rparr>
      in st2\<lparr>last_t := new_t\<rparr>)"

text \<open>The loop itself (line 80), one equation per iteration.\<close>

fun progress_loop :: "(rat \<Rightarrow> rat) \<Rightarrow> loop_state \<Rightarrow> segment list \<Rightarrow> loop_state" where
  "progress_loop fl st [] = st"
| "progress_loop fl st (seg # rest) = progress_loop fl (progress_step fl st seg) rest"

text \<open>The loop without a progress bar (lines 87-88).\<close>

fun collect_loop :: "loop_state \<Rightarrow> segment list \<Rightarrow> loop_state" where
  "collect_loop st [] = st"
| "collect_loop st (seg # rest) = collect_loop (st\<lparr>segs := segs st @ [seg]\<rparr>) rest"

text \<open>Lines 73-88 on the segments the generator yields.\<close>

definition drain :: "(rat \<Rightarrow> rat) \<Rightarrow> transcription_info \<Rightarrow> segment list \<Rightarrow> loop_state" where
  "drain fl info yielded =
     (if 0 < total_duration info then progress_loop fl initial_loop_state yielded
      else collect_loop initial_loop_state yielded)"

section \<open>The three renderers (transcribe.py, lines 93-115)\<close>

text \<open>Line 93: the text artifact.\<close>

definition txt_text :: "segment list \<Rightarrow> pystr" where
  "txt_text sgs =
     join (lit ''\<newline>'')
       [strip (seg_text seg). seg \<leftarrow> sgs, seg_text seg \<noteq> [] \<and> strip (seg_text seg) \<noteq> []]"

text \<open>
  Lines 98-103: the loop that appends four lines per segment, counting from \<open>i\<close>.  The
  timing line formats the start, then the end; either call may raise, which ends the
  loop.
\<close>

fun srt_loop ::
  "(rat \<Rightarrow> rat) \<Rightarrow> nat \<Rightarrow> segment list \<Rightarrow> pystr list \<Rightarrow> error + pystr list" where
  "srt_loop fl i [] srt_lines = Inr srt_lines"
| "srt_loop fl i (seg # rest) srt_lines =
     (case format_srt_time fl (seg_start seg) of
        Inl e \<Rightarrow> Inl e
      | Inr start_time \<Rightarrow>
          (case format_srt_time fl (seg_end seg) of
             Inl e \<Rightarrow> Inl e
           | Inr end_time \<Rightarrow>
               srt_loop fl (i + 1) rest
                 ((((srt_lines @ [str_nat i])
                     @ [start_time @ lit '' --> '' @ end_time])
                     @ [strip (seg_text seg)])
                     @ [[]])))"

definition srt_lines_of :: "(rat \<Rightarrow> rat) \<Rightarrow> segment list \<Rightarrow> error + pystr list" where
  "srt_lines_of fl sgs = srt_loop fl 1 sgs []"

text \<open>Lines 98-105: what is written to the subtitle file, if the loop does not raise.\<close>

definition srt_text :: "(rat \<Rightarrow> rat) \<Rightarrow> segment list \<Rightarrow> error + pystr" where
  "srt_text fl sgs =
     (case srt_lines_of fl sgs of
        Inl e \<Rightarrow> Inl e
      | Inr srt_lines \<Rightarrow> Inr (join (lit ''\<newline>'') srt_lines))"

subsection \<open>\<open>json.dumps(data, ensure_ascii=False, indent=2)\<close>\<close>

datatype json =
  JNull
| JNumber rat
| JString pystr
| JArray "json list"
| JObject "(pystr \<times> json) list"

definition hex_digit :: "nat \<Rightarrow> nat" where
  "hex_digit d = (if d < 10 then 48 + d else 87 + d)"

text \<open>
  The escape table of the encoder when \<open>ensure_ascii\<close> is false: the backslash, the
  double quote and the control characters below U+0020 are escaped, every other code
  point is copied.
\<close>

definition escape_char :: "nat \<Rightarrow> pystr" where
  "escape_char c =
     (if c = 92 then [92, 92]
      else if c = 34 then [92, 34]
      else if c = 8 then [92, 98]
      else if c = 12 then [92, 102]
      else if c = 10 then [92, 110]
      else if c = 13 then [92, 114]
      else if c = 9 then [92, 116]
      else if c < 32 then [92, 117, 48, 48, hex_digit (c div 16), hex_digit (c mod 16)]
      else [c])"

definition py_encode_basestring :: "pystr \<Rightarrow> pystr" where
  "py_encode_basestring s = 34 # concat (map escape_char s) @ [34]"

definition newline_indent :: "nat \<Rightarrow> pystr" where
  "newline_indent level = 10 # replicate (2 * level) 32"

text \<open>
  The encoder at nesting depth \<open>level\<close>; \<open>float_repr\<close> is \<open>float.__repr__\<close>, a
  parameter.  An empty list is \<open>[]\<close> and an empty dict \<open>{}\<close>; otherwise every item
  stands on a line of its own, indented by two spaces per level.
\<close>

fun json_encode :: "(rat \<Rightarrow> pystr) \<Rightarrow> nat \<Rightarrow> json \<Rightarrow> pystr" where
  "json_encode float_repr level JNull = lit ''null''"
| "json_encode float_repr level (JNumber x) = float_repr x"
| "json_encode float_repr level (JString s) = py_encode_basestring s"
| "json_encode float_repr level (JArray vs) =
     (if vs = [] then lit ''[]''
      else lit ''['' @ newline_indent (level + 1)
        @ join (lit '','' @ newline_indent (level + 1))
            (map (json_encode float_repr (level + 1)) vs)
        @ newline_indent level @ lit '']'')"
| "json_encode float_repr level (JObject kvs) =
     (if kvs = [] then lit ''{}''
      else lit ''{'' @ newline_indent (level + 1)
        @ join (lit '','' @ newline_indent (level + 1))
            (map (\<lambda>(k, v). py_encode_basestring k @ lit '': ''
                    @ json_encode float_repr (level + 1) v) kvs)
        @ newline_indent level @ lit ''}'')"

definition json_dumps :: "(rat \<Rightarrow> pystr) \<Rightarrow> json \<Rightarrow> pystr" where
  "json_dumps float_repr v = json_encode float_repr 0 v"

text \<open>Lines 109-114: the dictionary \<open>data\<close>.\<close>

definition opt_string :: "pystr option \<Rightarrow> json" where
  "opt_string v = (case v of None \<Rightarrow> JNull | Some s \<Rightarrow> JString s)"

definition opt_number :: "rat option \<Rightarrow> json" where
  "opt_number v = (case v of None \<Rightarrow> JNull | Some x \<Rightarrow> JNumber x)"

definition segment_entry :: "segment \<Rightarrow> json" where
  "segment_entry s =
     JObject [(lit ''start'', JNumber (seg_start s)), (lit ''end'', JNumber (seg_end s)),
              (lit ''text'', JString (strip (seg_text s)))]"

definition json_data :: "transcription_info \<Rightarrow> pystr \<Rightarrow> segment list \<Rightarrow> json" where
  "json_data info model sgs =
     JObject [(lit ''detected_language'', opt_string (info_language info)),
              (lit ''duration'', opt_number (info_duration info)),
              (lit ''model'', JString model),
              (lit ''segments'', JArray (map segment_entry sgs))]"

definition json_text :: "(rat \<Rightarrow> pystr) \<Rightarrow> transcription_info \<Rightarrow> pystr \<Rightarrow> segment list \<Rightarrow> pystr" where
  "json_text float_repr info model sgs = json_dumps float_repr (json_data info model sgs)"

section \<open>The world outside the program\<close>

text \<open>
  The file system maps a path to what is stored there.  The external decoder, the
  recognition model and the operating system are parameters, collected in \<open>world\<close>:
  \<^item> \<open>resolve\<close> is \<open>Path(s).expanduser().resolve()\<close>;
  \<^item> \<open>spawn\<close> runs a command: the program cannot be started, or it exits with a status
    and leaves a file system behind;
  \<^item> \<open>load_model\<close> is the constructor \<open>WhisperModel\<close>: \<open>Some msg\<close> when it raises;
  \<^item> \<open>transcribe\<close> is \<open>model.transcribe\<close>: it raises, or returns the generator and the
    info.  A generator is given by the segments it yields and by whether it then
    finishes or raises.  Whatever the model raises is recorded as \<open>ModelError\<close> with
    its message;
  \<^item> \<open>writable\<close> says whether a file can be opened for writing;
  \<^item> \<open>rounding\<close> is the rounding of binary64 arithmetic and \<open>repr\<close> is \<open>float.__repr__\<close>.
\<close>

datatype content = Directory | Bytes "nat list" | Text pystr

type_synonym fs = "path \<Rightarrow> content option"

datatype proc_result = Not_started | Exited int fs

record transcription =
  tr_yielded :: "segment list"
  tr_failure :: "pystr option"
  tr_info :: transcription_info

record world =
  resolve :: "pystr \<Rightarrow> path"
  spawn :: "fs \<Rightarrow> pystr list \<Rightarrow> proc_result"
  load_model :: "pystr \<Rightarrow> pystr option"
  transcribe :: "pystr \<Rightarrow> fs \<Rightarrow> pystr \<Rightarrow> pystr option \<Rightarrow> pystr + transcription"
  writable :: "path \<Rightarrow> bool"
  rounding :: "rat \<Rightarrow> rat"
  repr :: "rat \<Rightarrow> pystr"

text \<open>The parsed command line.\<close>

record args =
  arg_audio :: pystr
  arg_model :: pystr
  arg_language :: "pystr option"
  arg_keep_wav :: bool

text \<open>What the program does to the world, in order, and how a run ends.\<close>

datatype event =
  Run "pystr list"
| Load_model pystr
| Transcribe_call pystr nat bool "pystr option"
| Pbar_open rat
| Pbar_update rat
| Pbar_close
| Write_text path pystr
| Print pystr

record outcome =
  raised :: "error option"
  files :: fs
  events :: "event list"

definition is_write :: "event \<Rightarrow> bool" where
  "is_write e = (case e of Write_text p d \<Rightarrow> True | _ \<Rightarrow> False)"

text \<open>An exception that reaches the top level ends the process with status 1.\<close>

definition exit_status :: "outcome \<Rightarrow> nat" where
  "exit_status oc = (case raised oc of None \<Rightarrow> 0 | Some e \<Rightarrow> 1)"

section \<open>The pipeline (transcribe.py, lines 9-10, 25-40 and 43-121)\<close>

text \<open>\<open>subprocess.run(cmd, check=True)\<close>\<close>

definition run :: "world \<Rightarrow> fs \<Rightarrow> pystr list \<Rightarrow> error option \<times> fs" where
  "run w fs cmd =
     (case spawn w fs cmd of
        Not_started \<Rightarrow> (Some (FileNotFoundError (case cmd of [] \<Rightarrow> [] | prog # _ \<Rightarrow> prog)), fs)
      | Exited status fs' \<Rightarrow>
          (if status \<noteq> 0 then Some (CalledProcessError status) else None, fs'))"

definition ffmpeg_cmd :: "path \<Rightarrow> path \<Rightarrow> pystr list" where
  "ffmpeg_cmd input_audio out_wav =
     [lit ''ffmpeg'', lit ''-y'',
      lit ''-i'', str_path input_audio,
      lit ''-ar'', lit ''16000'',
      lit ''-ac'', lit ''1'',
      lit ''-c:a'', lit ''pcm_s16le'',
      str_path out_wav]"

definition to_wav_16k_mono :: "world \<Rightarrow> fs \<Rightarrow> path \<Rightarrow> (error + path) \<times> fs \<times> event list" where
  "to_wav_16k_mono w fs input_audio =
     (case with_suffix input_audio (lit ''.16k_mono.wav'') of
        Inl e \<Rightarrow> (Inl e, fs, [])
      | Inr out_wav \<Rightarrow>
          (let cmd = ffmpeg_cmd input_audio out_wav in
           case run w fs cmd of
             (Some e, fs') \<Rightarrow> (Inl e, fs', [Run cmd])
           | (None, fs') \<Rightarrow> (Inr out_wav, fs', [Run cmd])))"

text \<open>
  \<open>path.write_text(data, encoding="utf-8")\<close>: the file is opened, which truncates it,
  and the data are then encoded; a lone surrogate cannot be encoded.  The content of a
  written file is recorded as the string itself.
\<close>

definition utf8_encodable :: "pystr \<Rightarrow> bool" where
  "utf8_encodable s = list_all (\<lambda>c. c < 55296 \<or> 57343 < c) s"

definition write_text :: "world \<Rightarrow> fs \<Rightarrow> path \<Rightarrow> pystr \<Rightarrow> error option \<times> fs" where
  "write_text w fs p data =
     (if \<not> writable w p then (Some (OSError p), fs)
      else if \<not> utf8_encodable data then (Some UnicodeEncodeError, fs(p \<mapsto> Text []))
      else (None, fs(p \<mapsto> Text data)))"

definition write_step :: "world \<Rightarrow> outcome \<Rightarrow> path \<Rightarrow> pystr \<Rightarrow> outcome" where
  "write_step w oc p data =
     (case write_text w (files oc) p data of
        (r, fs') \<Rightarrow> \<lparr>raised = r, files = fs', events = events oc @ [Write_text p data]\<rparr>)"

text \<open>Lines 73-88 with what the progress bar is told.\<close>

definition pbar_events :: "transcription_info \<Rightarrow> loop_state \<Rightarrow> event list" where
  "pbar_events info st =
     (if 0 < total_duration info
      then Pbar_open (total_duration info) # map Pbar_update (updates st) @ [Pbar_close]
      else [])"

text \<open>Lines 117-121.\<close>

definition report :: "path \<Rightarrow> transcription_info \<Rightarrow> path \<Rightarrow> path \<Rightarrow> path \<Rightarrow> path \<Rightarrow> event list" where
  "report input_audio info out_txt out_srt out_json wav =
     [Print (lit ''\<newline>Done.''),
      Print (lit ''Input: '' @ path_name input_audio),
      Print (lit ''Detected language: ''
             @ (case info_language info of None \<Rightarrow> lit ''None'' | Some l \<Rightarrow> l)),
      Print (lit ''Outputs: '' @ path_name out_txt @ lit '' '' @ path_name out_srt
             @ lit '' '' @ path_name out_json),
      Print (lit ''Intermediate wav: '' @ path_name wav)]"

text \<open>
  Lines 90-121: the three exports and the report, starting from the outcome \<open>oc\<close> of
  the run so far.  An exception ends the run where it is raised: in a \<open>with_suffix\<close>,
  in a write, or in the subtitle loop.
\<close>

definition export_results ::
  "world \<Rightarrow> args \<Rightarrow> path \<Rightarrow> path \<Rightarrow> transcription_info \<Rightarrow> segment list \<Rightarrow> outcome \<Rightarrow> outcome" where
  "export_results w a input_audio wav info sgs oc =
     (let out_base = input_audio;
          text = txt_text sgs
      in case with_suffix out_base (lit ''.txt'') of
           Inl e \<Rightarrow> oc\<lparr>raised := Some e\<rparr>
         | Inr out_txt \<Rightarrow>
             (let oc1 = write_step w oc out_txt text in
              if raised oc1 \<noteq> None then oc1
              else case srt_text (rounding w) sgs of
                Inl e \<Rightarrow> oc1\<lparr>raised := Some e\<rparr>
              | Inr srt \<Rightarrow>
                 (case with_suffix out_base (lit ''.srt'') of
                     Inl e \<Rightarrow> oc1\<lparr>raised := Some e\<rparr>
                   | Inr out_srt \<Rightarrow>
                       (let oc2 = write_step w oc1 out_srt srt in
                        if raised oc2 \<noteq> None then oc2
                        else case with_suffix out_base (lit ''.json'') of
                               Inl e \<Rightarrow> oc2\<lparr>raised := Some e\<rparr>
                             | Inr out_json \<Rightarrow>
                                 (let oc3 = write_step w oc2 out_json
                                        (json_text (repr w) info (arg_model a) sgs)
                                  in if raised oc3 \<noteq> None then oc3
                                     else oc3\<lparr>events := events oc3
                                       @ report input_audio info out_txt out_srt out_json wav\<rparr>)))))"

text \<open>Lines 43-88, then the exports.\<close>

definition main :: "world \<Rightarrow> args \<Rightarrow> fs \<Rightarrow> outcome" where
  "main w a fs0 =
     (let input_audio = resolve w (arg_audio a) in
      if fs0 input_audio = None
      then \<lparr>raised = Some (FileNotFoundError (lit ''File not found: '' @ str_path input_audio)),
            files = fs0, events = []\<rparr>
      else case to_wav_16k_mono w fs0 input_audio of
             (Inl e, fs1, ev1) \<Rightarrow> \<lparr>raised = Some e, files = fs1, events = ev1\<rparr>
           | (Inr wav, fs1, ev1) \<Rightarrow>
               (let ev2 = ev1 @ [Load_model (arg_model a)] in
                case load_model w (arg_model a) of
                  Some msg \<Rightarrow> \<lparr>raised = Some (ModelError msg), files = fs1, events = ev2\<rparr>
                | None \<Rightarrow>
                    (let ev3 = ev2 @ [Transcribe_call (str_path wav) 5 True (arg_language a)] in
                     case transcribe w (arg_model a) fs1 (str_path wav) (arg_language a) of
                       Inl msg \<Rightarrow> \<lparr>raised = Some (ModelError msg), files = fs1, events = ev3\<rparr>
                     | Inr tr \<Rightarrow>
                         (let st = drain (rounding w) (tr_info tr) (tr_yielded tr);
                              ev4 = ev3 @ pbar_events (tr_info tr) st
                          in case tr_failure tr of
                               Some msg \<Rightarrow>
                                 \<lparr>raised = Some (ModelError msg), files = fs1, events = ev4\<rparr>
                             | None \<Rightarrow>
                                 export_results w a input_audio wav (tr_info tr) (segs st)
                                   \<lparr>raised = None, files = fs1, events = ev4\<rparr>))))"

section \<open>Example inputs\<close>

definition demo_info :: transcription_info where
  "demo_info = \<lparr>info_language = Some (lit ''en''), info_duration = Some 10\<rparr>"

definition out_of_order :: "segment list" where
  "out_of_order =
     [\<lparr>seg_start = 0, seg_end = 3, seg_text = lit ''a''\<rparr>,
      \<lparr>seg_start = 3, seg_end = 9, seg_text = lit ''b''\<rparr>,
      \<lparr>seg_start = 4, seg_end = 5, seg_text = lit ''c''\<rparr>]"

text \<open>The two segments of the specification's scenario.\<close>

definition scenario_segments :: "segment list" where
  "scenario_segments =
     [\<lparr>seg_start = 0, seg_end = 3.456, seg_text = lit '' Hello ''\<rparr>,
      \<lparr>seg_start = 4, seg_end = 9.999, seg_text = lit ''world''\<rparr>]"

section \<open>Notions used to state the claims\<close>

text \<open>
  The timestamp of a time whose product with 1000 is finite, the segments all of whose
  timestamps exist, the block of four lines of the segment numbered \<open>i\<close> in a subtitle
  file, and the subtitle file of a list of segments.
\<close>

definition timestamp :: "(rat \<Rightarrow> rat) \<Rightarrow> rat \<Rightarrow> pystr" where
  "timestamp fl t =
     (let ms_total = py_round (fl (t * 1000))
      in format_0d 2 (ms_total div 3600000) @ lit '':''
         @ format_0d 2 (ms_total mod 3600000 div 60000) @ lit '':''
         @ format_0d 2 (ms_total mod 60000 div 1000) @ lit '',''
         @ format_0d 3 (ms_total mod 1000))"

definition times_in_range :: "segment list \<Rightarrow> bool" where
  "times_in_range sgs =
     list_all (\<lambda>seg. \<not> float_overflows (seg_start seg * 1000)
                      \<and> \<not> float_overflows (seg_end seg * 1000)) sgs"

definition srt_block :: "(rat \<Rightarrow> rat) \<Rightarrow> nat \<Rightarrow> segment \<Rightarrow> pystr list" where
  "srt_block fl i seg =
     [str_nat i,
      timestamp fl (seg_start seg) @ lit '' --> '' @ timestamp fl (seg_end seg),
      strip (seg_text seg),
      []]"

definition srt_rendering :: "(rat \<Rightarrow> rat) \<Rightarrow> segment list \<Rightarrow> pystr" where
  "srt_rendering fl sgs =
     join (lit ''\<newline>'') (concat (map (\<lambda>(i, seg). srt_block fl i seg) (enumerate 1 sgs)))"

text \<open>
  \<open>PurePath.stem\<close>, and the path with the same parents and stem but another suffix;
  the four paths the program derives from its input.
\<close>

definition stem :: "path \<Rightarrow> pystr" where
  "stem p = take (length (path_name p) - length (path_suffix p)) (path_name p)"

definition sibling :: "path \<Rightarrow> pystr \<Rightarrow> path" where
  "sibling p sfx = Path (path_parents p) (stem p @ sfx)"

definition wav_path :: "path \<Rightarrow> path" where
  "wav_path p = sibling p (lit ''.16k_mono.wav'')"

definition txt_path :: "path \<Rightarrow> path" where
  "txt_path p = sibling p (lit ''.txt'')"

definition srt_path :: "path \<Rightarrow> path" where
  "srt_path p = sibling p (lit ''.srt'')"

definition json_path :: "path \<Rightarrow> path" where
  "json_path p = sibling p (lit ''.json'')"

text \<open>What has happened when the exports begin.\<close>

definition events_before_export :: "world \<Rightarrow> args \<Rightarrow> path \<Rightarrow> transcription \<Rightarrow> event list" where
  "events_before_export w a input tr =
     [Run (ffmpeg_cmd input (wav_path input)),
      Load_model (arg_model a),
      Transcribe_call (str_path (wav_path input)) 5 True (arg_language a)]
     @ pbar_events (tr_info tr) (drain (rounding w) (tr_info tr) (tr_yielded tr))"

section \<open>Example worlds\<close>

definition demo_input :: path where
  "demo_input = Path [lit ''data''] (lit ''talk.m4a'')"

definition demo_fs :: fs where
  "demo_fs = [demo_input \<mapsto> Bytes [1, 2, 3]]"

definition demo_repr :: "rat \<Rightarrow> pystr" where
  "demo_repr x =
     (case map_of [(0, lit ''0.0''), (3.456, lit ''3.456''), (4, lit ''4.0''),
                   (9.999, lit ''9.999''), (10, lit ''10.0'')] x of
        Some s \<Rightarrow> s
      | None \<Rightarrow> lit ''1.5'')"

definition demo_transcription :: transcription where
  "demo_transcription =
     \<lparr>tr_yielded = scenario_segments, tr_failure = None, tr_info = demo_info\<rparr>"

text \<open>
  A world in which everything works: the decoder writes two bytes at the waveform path
  of \<open>input\<close> and touches nothing else, the model loads, and transcription returns \<open>tr\<close>.
\<close>

definition world_for :: "path \<Rightarrow> transcription \<Rightarrow> world" where
  "world_for input tr =
     \<lparr>resolve = (\<lambda>s. Path [lit ''data''] s),
      spawn = (\<lambda>fs cmd. Exited 0 (fs(wav_path input \<mapsto> Bytes [0, 0]))),
      load_model = (\<lambda>m. None),
      transcribe = (\<lambda>m fs p l. Inr tr),
      writable = (\<lambda>p. True),
      rounding = (\<lambda>x. x),
      repr = demo_repr\<rparr>"

definition demo_world :: world where
  "demo_world = world_for demo_input demo_transcription"

text \<open>The same world, but the generator raises after its two segments.\<close>

definition failing_world :: world where
  "failing_world =
     world_for demo_input (demo_transcription\<lparr>tr_failure := Some (lit ''decoding failed'')\<rparr>)"

definition demo_args :: args where
  "demo_args =
     \<lparr>arg_audio = lit ''talk.m4a'', arg_model = lit ''small'', arg_language = None,
      arg_keep_wav = False\<rparr>"








section \<open>Further notions used to state the claims\<close>

text \<open>The code points of a string that lie outside ASCII, in order.\<close>

definition non_ascii :: "pystr \<Rightarrow> pystr" where
  "non_ascii s = filter (\<lambda>c. 128 \<le> c) s"


section \<open>Decimal digits and the timestamp fields\<close>

lemma replicate_numeral: "replicate (numeral k) x = x # replicate (pred_numeral k) x"
  by (simp add: numeral_eq_Suc)

lemma str_nat_nonempty: "str_nat n \<noteq> []"
  by (subst str_nat.simps) simp

lemma str_nat_digits: "list_all is_digit (str_nat n)"
proof (induction n rule: str_nat.induct)
  case (1 n)
  show ?case
  proof (cases "n < 10")
    case True
    then show ?thesis by (subst str_nat.simps) (simp add: is_digit_def digit_char_def)
  next
    case False
    have "n mod 10 < 10" by simp
    then have "is_digit (digit_char (n mod 10))"
      unfolding is_digit_def digit_char_def by linarith
    with False 1 show ?thesis by (subst str_nat.simps) simp
  qed
qed

lemma digits_value_snoc:
  "digits_value acc (xs @ [c]) = 10 * digits_value acc xs + (c - 48)"
  by (induction xs arbitrary: acc) simp_all

lemma digits_value_str_nat: "digits_value 0 (str_nat n) = n"
proof (induction n rule: str_nat.induct)
  case (1 n)
  show ?case
  proof (cases "n < 10")
    case True
    then show ?thesis by (subst str_nat.simps) (simp add: digit_char_def)
  next
    case False
    with 1 show ?thesis
      by (subst str_nat.simps) (simp add: digits_value_snoc digit_char_def)
  qed
qed

lemma digits_value_zeros: "digits_value 0 (replicate k 48 @ s) = digits_value 0 s"
  by (induction k) simp_all

lemma length_str_nat_lt10: "n < 10 \<Longrightarrow> length (str_nat n) = 1"
  by (subst str_nat.simps) simp

lemma length_str_nat_lt100: "n < 100 \<Longrightarrow> length (str_nat n) \<le> 2"
  by (subst str_nat.simps) (simp add: length_str_nat_lt10)

lemma length_str_nat_lt1000:
  assumes "n < 1000"
  shows "length (str_nat n) \<le> 3"
proof (cases "n < 10")
  case True
  then show ?thesis by (simp add: length_str_nat_lt10)
next
  case False
  from assms have "n div 10 < 100" by simp
  then have "length (str_nat (n div 10)) \<le> 2" by (rule length_str_nat_lt100)
  with False show ?thesis by (subst str_nat.simps) simp
qed

lemma length_zpad: "length (zpad w s) = max w (length s)"
  by (simp add: zpad_def)

lemma zpad_digits: "list_all is_digit s \<Longrightarrow> list_all is_digit (zpad w s)"
  by (auto simp: zpad_def is_digit_def list_all_iff)

lemma format_0d_nonneg: "0 \<le> n \<Longrightarrow> format_0d w n = zpad w (str_nat (nat n))"
  by (simp add: format_0d_def)

lemma format_0d_digits: "0 \<le> n \<Longrightarrow> list_all is_digit (format_0d w n)"
  by (simp add: format_0d_nonneg zpad_digits str_nat_digits)

lemma format_0d_value: "0 \<le> n \<Longrightarrow> int (digits_value 0 (format_0d w n)) = n"
  by (simp add: format_0d_nonneg zpad_def digits_value_zeros digits_value_str_nat)

lemma format_0d_length_2: "0 \<le> n \<Longrightarrow> n < 100 \<Longrightarrow> length (format_0d 2 n) = 2"
  using length_str_nat_lt100 [of "nat n"] by (simp add: format_0d_nonneg length_zpad)

lemma format_0d_length_3: "0 \<le> n \<Longrightarrow> n < 1000 \<Longrightarrow> length (format_0d 3 n) = 3"
  using length_str_nat_lt1000 [of "nat n"] by (simp add: format_0d_nonneg length_zpad)

lemma py_round_nonneg: "0 \<le> x \<Longrightarrow> 0 \<le> py_round x"
  by (auto simp: py_round_def Let_def)

lemma py_round_nearest: "\<bar>of_int (py_round x) - x\<bar> \<le> 1 / 2"
proof -
  have a: "of_int \<lfloor>x\<rfloor> \<le> x" and b: "x < of_int \<lfloor>x\<rfloor> + 1"
    by linarith+
  show ?thesis
    using a b unfolding py_round_def Let_def by (simp split: if_splits)
qed

lemma div_bounds:
  fixes x :: int
  assumes "0 \<le> x" and "x < b * c" and "0 < c"
  shows "0 \<le> x div c" and "x div c < b"
proof -
  show "0 \<le> x div c" using assms by (simp add: pos_imp_zdiv_nonneg_iff)
  have "x div c * c + x mod c = x" by simp
  moreover have "0 \<le> x mod c" using assms(3) by simp
  ultimately have "x div c * c \<le> x" by linarith
  then have "x div c * c < b * c" using assms(2) by linarith
  then show "x div c < b" using assms(3) by simp
qed

lemma recompose:
  fixes T :: int
  assumes a: "T = h * 3600000 + r1" and b: "r1 = m * 60000 + r2" and c: "r2 = s * 1000 + ms"
  shows "T = ((h * 60 + m) * 60 + s) * 1000 + ms"
  unfolding a b c by (simp add: algebra_simps)

lemma srt_fields:
  fixes T :: int
  defines "h \<equiv> T div 3600000" and "m \<equiv> T mod 3600000 div 60000"
    and "s \<equiv> T mod 60000 div 1000" and "ms \<equiv> T mod 1000"
  shows "T mod 3600000 mod 60000 = T mod 60000"
    and "T mod 60000 mod 1000 = T mod 1000"
    and "0 \<le> m" and "m < 60" and "0 \<le> s" and "s < 60" and "0 \<le> ms" and "ms < 1000"
    and "T = ((h * 60 + m) * 60 + s) * 1000 + ms"
proof -
  show c1: "T mod 3600000 mod 60000 = T mod 60000"
    by (rule mod_mod_cancel) simp
  show c2: "T mod 60000 mod 1000 = T mod 1000"
    by (rule mod_mod_cancel) simp
  have r1: "0 \<le> T mod 3600000" "T mod 3600000 < 60 * 60000" by simp_all
  have r2: "0 \<le> T mod 60000" "T mod 60000 < 60 * 1000" by simp_all
  show "0 \<le> m" "m < 60" unfolding m_def using div_bounds [OF r1] by simp_all
  show "0 \<le> s" "s < 60" unfolding s_def using div_bounds [OF r2] by simp_all
  show "0 \<le> ms" "ms < 1000" unfolding ms_def by simp_all
  have a: "T = h * 3600000 + T mod 3600000" unfolding h_def by simp
  have b: "T mod 3600000 = m * 60000 + T mod 60000"
    unfolding m_def using c1 div_mult_mod_eq [of "T mod 3600000" 60000] by simp
  have c: "T mod 60000 = s * 1000 + ms"
    unfolding s_def ms_def using c2 div_mult_mod_eq [of "T mod 60000" 1000] by simp
  show "T = ((h * 60 + m) * 60 + s) * 1000 + ms"
    by (rule recompose [OF a b c])
qed


lemma format_srt_time_timestamp:
  "format_srt_time fl t
     = (if float_overflows (t * 1000) then Inl OverflowError else Inr (timestamp fl t))"
proof -
  note F = srt_fields [of "py_round (fl (t * 1000))"]
  show ?thesis
    by (simp add: format_srt_time_def float_mul_def timestamp_def Let_def F(1,2))
qed

text \<open>
  Claim C1.  For a non-negative number of seconds \<open>t\<close> whose product with 1000 is a
  finite binary64 number the timestamp formatter returns \<open>HH:MM:SS,mmm\<close>, where with
  \<open>ms_total = round(t * 1000)\<close> the hours are \<open>ms_total // 3600000\<close>, the minutes
  \<open>(ms_total % 3600000) // 60000\<close>, the seconds \<open>(ms_total % 60000) // 1000\<close> and the
  milliseconds \<open>ms_total % 1000\<close>.  The hours field has at least two digits, the minutes
  and seconds fields exactly two and the milliseconds field exactly three; every field
  is a string of decimal digits denoting its number; minutes and seconds lie in 0..59
  and milliseconds in 0..999; and the four numbers recompose \<open>ms_total\<close>.  When the
  product overflows, the formatter raises \<open>OverflowError\<close> and returns no string.  The
  only property of binary64 rounding that is used is that it keeps a non-negative number
  non-negative.
\<close>

theorem format_srt_time_fields:
  assumes t: "0 \<le> t" and fl: "\<And>x. 0 \<le> x \<Longrightarrow> 0 \<le> fl x"
  shows "if float_overflows (t * 1000) then format_srt_time fl t = Inl OverflowError
         else
         (let ms_total = py_round (fl (t * 1000));
              h = ms_total div 3600000;
              m = ms_total mod 3600000 div 60000;
              s = ms_total mod 60000 div 1000;
              ms = ms_total mod 1000;
              hh = format_0d 2 h; mm = format_0d 2 m; ss = format_0d 2 s; mmm = format_0d 3 ms
          in format_srt_time fl t
               = Inr (hh @ lit '':'' @ mm @ lit '':'' @ ss @ lit '','' @ mmm)
             \<and> 2 \<le> length hh \<and> length mm = 2 \<and> length ss = 2 \<and> length mmm = 3
             \<and> list_all is_digit hh \<and> list_all is_digit mm
             \<and> list_all is_digit ss \<and> list_all is_digit mmm
             \<and> int (digits_value 0 hh) = h \<and> int (digits_value 0 mm) = m
             \<and> int (digits_value 0 ss) = s \<and> int (digits_value 0 mmm) = ms
             \<and> 0 \<le> h \<and> 0 \<le> m \<and> m \<le> 59 \<and> 0 \<le> s \<and> s \<le> 59
             \<and> 0 \<le> ms \<and> ms \<le> 999
             \<and> ms_total = ((h * 60 + m) * 60 + s) * 1000 + ms)"
proof (cases "float_overflows (t * 1000)")
  case True
  then show ?thesis by (simp add: format_srt_time_timestamp)
next
  case False
  define T where "T = py_round (fl (t * 1000))"
  define h m s ms where "h = T div 3600000" and "m = T mod 3600000 div 60000"
    and "s = T mod 60000 div 1000" and "ms = T mod 1000"
  have T0: "0 \<le> T"
    unfolding T_def using t by (intro py_round_nonneg fl) simp
  note F = srt_fields [of T, folded h_def m_def s_def ms_def]
  have "format_srt_time fl t = Inr (timestamp fl t)"
    using False by (simp add: format_srt_time_timestamp)
  then have eq: "format_srt_time fl t =
      Inr (format_0d 2 h @ lit '':'' @ format_0d 2 m @ lit '':'' @ format_0d 2 s
        @ lit '','' @ format_0d 3 ms)"
    unfolding timestamp_def Let_def T_def [symmetric] h_def m_def s_def ms_def .
  have h0: "0 \<le> h" using T0 by (simp add: h_def pos_imp_zdiv_nonneg_iff)
  have m0: "0 \<le> m" "m < 60" and s0: "0 \<le> s" "s < 60" and ms0: "0 \<le> ms" "ms < 1000"
    using F by simp_all
  have recon: "T = ((h * 60 + m) * 60 + s) * 1000 + ms" using F(9) .
  have len: "2 \<le> length (format_0d 2 h)" "length (format_0d 2 m) = 2"
    "length (format_0d 2 s) = 2" "length (format_0d 3 ms) = 3"
  proof -
    show "2 \<le> length (format_0d 2 h)"
      using h0 by (simp add: format_0d_nonneg length_zpad)
    show "length (format_0d 2 m) = 2" using m0 by (intro format_0d_length_2) simp_all
    show "length (format_0d 2 s) = 2" using s0 by (intro format_0d_length_2) simp_all
    show "length (format_0d 3 ms) = 3" using ms0 by (intro format_0d_length_3) simp_all
  qed
  have dig: "list_all is_digit (format_0d 2 h)" "list_all is_digit (format_0d 2 m)"
    "list_all is_digit (format_0d 2 s)" "list_all is_digit (format_0d 3 ms)"
    using h0 m0 s0 ms0 by (simp_all add: format_0d_digits)
  have val: "int (digits_value 0 (format_0d 2 h)) = h" "int (digits_value 0 (format_0d 2 m)) = m"
    "int (digits_value 0 (format_0d 2 s)) = s" "int (digits_value 0 (format_0d 3 ms)) = ms"
    using h0 m0 s0 ms0 by (simp_all add: format_0d_value)
  have rng: "m \<le> 59" "s \<le> 59" "ms \<le> 999" using m0 s0 ms0 by simp_all
  have "let ms_total = py_round (fl (t * 1000));
              h = ms_total div 3600000;
              m = ms_total mod 3600000 div 60000;
              s = ms_total mod 60000 div 1000;
              ms = ms_total mod 1000;
              hh = format_0d 2 h; mm = format_0d 2 m; ss = format_0d 2 s; mmm = format_0d 3 ms
          in format_srt_time fl t
               = Inr (hh @ lit '':'' @ mm @ lit '':'' @ ss @ lit '','' @ mmm)
             \<and> 2 \<le> length hh \<and> length mm = 2 \<and> length ss = 2 \<and> length mmm = 3
             \<and> list_all is_digit hh \<and> list_all is_digit mm
             \<and> list_all is_digit ss \<and> list_all is_digit mmm
             \<and> int (digits_value 0 hh) = h \<and> int (digits_value 0 mm) = m
             \<and> int (digits_value 0 ss) = s \<and> int (digits_value 0 mmm) = ms
             \<and> 0 \<le> h \<and> 0 \<le> m \<and> m \<le> 59 \<and> 0 \<le> s \<and> s \<le> 59
             \<and> 0 \<le> ms \<and> ms \<le> 999
             \<and> ms_total = ((h * 60 + m) * 60 + s) * 1000 + ms"
    unfolding Let_def T_def [symmetric] h_def [symmetric] m_def [symmetric]
      s_def [symmetric] ms_def [symmetric]
    by (intro conjI eq len dig val h0 m0(1) s0(1) ms0(1) rng recon)
  with False show ?thesis by (simp only: if_False)
qed

text \<open>The formatter at 3.456 seconds, with exact arithmetic for the product.\<close>

theorem format_srt_time_fields_witness:
  "format_srt_time (\<lambda>x. x) 3.456 = Inr (lit ''00:00:03,456'')
   \<and> py_round (3.456 * 1000) = 3456
   \<and> \<not> float_overflows (3.456 * 1000)"
proof -
  have h: "(0::rat) \<le> 3.456" by simp
  have r: "py_round (3.456 * 1000) = 3456" by (simp add: py_round_def)
  have o: "\<not> float_overflows (3.456 * 1000)" by (simp add: float_overflows_def)
  have "format_srt_time (\<lambda>x. x) 3.456 = Inr (
      format_0d 2 (py_round (3.456 * 1000) div 3600000) @ lit '':''
      @ format_0d 2 (py_round (3.456 * 1000) mod 3600000 div 60000) @ lit '':''
      @ format_0d 2 (py_round (3.456 * 1000) mod 60000 div 1000) @ lit '',''
      @ format_0d 3 (py_round (3.456 * 1000) mod 1000))"
    using format_srt_time_fields [of "3.456" "\<lambda>x. x", OF h] o by (simp add: Let_def)
  then have "format_srt_time (\<lambda>x. x) 3.456 = Inr (lit ''00:00:03,456'')"
    unfolding r
    by (simp add: format_0d_def zpad_def str_nat.simps digit_char_def lit_def replicate_numeral)
  with r o show ?thesis by simp
qed

text \<open>
  The time \<open>2^1015\<close> seconds is a binary64 number, and not negative; its product with
  1000 is not finite, so the formatter raises and returns no string.
\<close>

theorem format_srt_time_overflow_counterexample:
  "(0::rat) \<le> 2 ^ 1015 \<and> format_srt_time (\<lambda>x. x) (2 ^ 1015) = Inl OverflowError"
  by (simp add: format_srt_time_def float_mul_def float_overflows_def)

section \<open>The progress loop\<close>

lemma progress_loop_snoc:
  "progress_loop fl st (xs @ [x]) = progress_step fl (progress_loop fl st xs) x"
  by (induction xs arbitrary: st) simp_all

lemma collect_loop_snoc:
  "collect_loop st (xs @ [x]) = (collect_loop st xs)\<lparr>segs := segs (collect_loop st xs) @ [x]\<rparr>"
  by (induction xs arbitrary: st) simp_all

lemma collect_loop_fields:
  "last_t (collect_loop st xs) = last_t st" "updates (collect_loop st xs) = updates st"
  "segs (collect_loop st xs) = segs st @ xs"
  by (induction xs arbitrary: st) simp_all

lemma progress_step_fields:
  "segs (progress_step fl st x) = segs st @ [x]"
  "last_t (progress_step fl st x) = max (last_t st) (seg_end x)"
  "updates (progress_step fl st x) =
     updates st @ [max 0 (fl (max (last_t st) (seg_end x) - last_t st))]"
  by (simp_all add: progress_step_def Let_def)

lemma progress_loop_segs: "segs (progress_loop fl st xs) = segs st @ xs"
  by (induction xs arbitrary: st) (simp_all add: progress_step_fields)

lemma progress_loop_updates_nonneg:
  "list_all (\<lambda>u. 0 \<le> u) (updates st) \<Longrightarrow> list_all (\<lambda>u. 0 \<le> u) (updates (progress_loop fl st xs))"
  by (induction xs arbitrary: st) (simp_all add: progress_step_fields)

lemma progress_loop_length_updates:
  "length (updates (progress_loop fl st xs)) = length (updates st) + length xs"
  by (induction xs arbitrary: st) (simp_all add: progress_step_fields)

lemma take_Suc_snoc: "k < length ys \<Longrightarrow> take (Suc k) ys = take k ys @ [ys ! k]"
  by (simp add: take_Suc_conv_app_nth)

lemma drain_segs: "segs (drain fl info ys) = ys"
  by (simp add: drain_def initial_loop_state_def progress_loop_segs collect_loop_fields)

lemma drain_step_open:
  assumes "0 < total_duration info" and "k < length ys"
  shows "drain fl info (take (Suc k) ys) = progress_step fl (drain fl info (take k ys)) (ys ! k)"
  using assms by (simp add: drain_def take_Suc_snoc progress_loop_snoc)

lemma drain_closed:
  assumes "\<not> 0 < total_duration info"
  shows "last_t (drain fl info ys) = 0" "updates (drain fl info ys) = []"
  using assms by (simp_all add: drain_def collect_loop_fields initial_loop_state_def)

lemma drain_last_t_step:
  assumes "k < length ys"
  shows "last_t (drain fl info (take k ys)) \<le> last_t (drain fl info (take (Suc k) ys))"
proof (cases "0 < total_duration info")
  case True
  then show ?thesis using assms by (simp add: drain_step_open progress_step_fields)
next
  case False
  then show ?thesis by (simp add: drain_closed)
qed

lemma drain_last_t_mono:
  assumes "j \<le> k" and "k \<le> length ys"
  shows "last_t (drain fl info (take j ys)) \<le> last_t (drain fl info (take k ys))"
  using assms
proof (induction k)
  case 0
  then show ?case by simp
next
  case (Suc k)
  show ?case
  proof (cases "j = Suc k")
    case True
    then show ?thesis by simp
  next
    case False
    with Suc.prems have "j \<le> k" "k \<le> length ys" "k < length ys" by simp_all
    with Suc.IH drain_last_t_step [of k ys fl info] show ?thesis by simp
  qed
qed

lemma drain_updates_nonneg: "list_all (\<lambda>u. 0 \<le> u) (updates (drain fl info ys))"
proof (cases "0 < total_duration info")
  case True
  then show ?thesis
    by (simp add: drain_def progress_loop_updates_nonneg initial_loop_state_def)
next
  case False
  then show ?thesis by (simp add: drain_closed)
qed

text \<open>
  Claim C2, as the code has it.  While the progress bar is shown, that is when the
  total duration is known and positive, the coverage \<open>last_t\<close> after each consumed
  segment is the maximum of the coverage before it and the segment's end, and the bar
  is advanced by the difference, clamped at 0.  When the duration is unknown or not
  positive no coverage is kept: \<open>last_t\<close> stays 0 and the bar is never advanced.  In
  both cases the coverage never decreases along the stream, whatever the order of the
  ends, every increment reported is at least 0, and every segment is collected.
  The state after \<open>k\<close> segments is the loop run on the first \<open>k\<close> segments.
\<close>

theorem coverage_monotone:
  shows "(0 < total_duration info \<longrightarrow>
           (\<forall>k<length ys.
              last_t (drain fl info (take (Suc k) ys))
                = max (last_t (drain fl info (take k ys))) (seg_end (ys ! k))
              \<and> updates (drain fl info (take (Suc k) ys))
                = updates (drain fl info (take k ys))
                  @ [max 0 (fl (last_t (drain fl info (take (Suc k) ys))
                                - last_t (drain fl info (take k ys))))]))
       \<and> (\<not> 0 < total_duration info \<longrightarrow>
            last_t (drain fl info ys) = 0 \<and> updates (drain fl info ys) = [])
       \<and> (\<forall>j k. j \<le> k \<and> k \<le> length ys \<longrightarrow>
            last_t (drain fl info (take j ys)) \<le> last_t (drain fl info (take k ys)))
       \<and> list_all (\<lambda>u. 0 \<le> u) (updates (drain fl info ys))
       \<and> segs (drain fl info ys) = ys"
proof (intro conjI impI allI)
  fix k assume "0 < total_duration info" "k < length ys"
  then have st: "drain fl info (take (Suc k) ys)
      = progress_step fl (drain fl info (take k ys)) (ys ! k)"
    by (rule drain_step_open)
  show "last_t (drain fl info (take (Suc k) ys))
      = max (last_t (drain fl info (take k ys))) (seg_end (ys ! k))"
    by (simp add: st progress_step_fields)
  show "updates (drain fl info (take (Suc k) ys))
      = updates (drain fl info (take k ys))
        @ [max 0 (fl (last_t (drain fl info (take (Suc k) ys))
                      - last_t (drain fl info (take k ys))))]"
    by (simp add: st progress_step_fields)
next
  assume "\<not> 0 < total_duration info"
  then show "last_t (drain fl info ys) = 0" "updates (drain fl info ys) = []"
    by (rule drain_closed)+
next
  fix j k assume "j \<le> k \<and> k \<le> length ys"
  then show "last_t (drain fl info (take j ys)) \<le> last_t (drain fl info (take k ys))"
    by (simp add: drain_last_t_mono)
next
  show "list_all (\<lambda>u. 0 \<le> u) (updates (drain fl info ys))" by (rule drain_updates_nonneg)
next
  show "segs (drain fl info ys) = ys" by (rule drain_segs)
qed

text \<open>Three segments whose ends arrive as 3, 9, 5: the coverage is 3, 9, 9.\<close>

theorem coverage_monotone_witness:
  "0 < total_duration demo_info
   \<and> last_t (drain (\<lambda>x. x) demo_info (take 2 out_of_order)) = 9
   \<and> last_t (drain (\<lambda>x. x) demo_info (take 3 out_of_order)) = 9
   \<and> updates (drain (\<lambda>x. x) demo_info out_of_order) = [3, 6, 0]"
proof -
  have d: "0 < total_duration demo_info" by (simp add: total_duration_def demo_info_def)
  have l: "(2::nat) < length out_of_order" by (simp add: out_of_order_def)
  have n: "seg_end (out_of_order ! 2) = 5" by (simp add: out_of_order_def)
  have two: "last_t (drain (\<lambda>x. x) demo_info (take 2 out_of_order)) = 9"
    using d by (simp add: drain_def out_of_order_def initial_loop_state_def progress_step_def)
  have t3: "take 3 out_of_order = out_of_order" by (simp add: out_of_order_def)
  from coverage_monotone [of demo_info out_of_order "\<lambda>x. x"] d l
  have "last_t (drain (\<lambda>x. x) demo_info (take (Suc 2) out_of_order))
      = max (last_t (drain (\<lambda>x. x) demo_info (take 2 out_of_order))) (seg_end (out_of_order ! 2))
      \<and> updates (drain (\<lambda>x. x) demo_info (take (Suc 2) out_of_order))
        = updates (drain (\<lambda>x. x) demo_info (take 2 out_of_order))
          @ [max 0 (last_t (drain (\<lambda>x. x) demo_info (take (Suc 2) out_of_order))
                    - last_t (drain (\<lambda>x. x) demo_info (take 2 out_of_order)))]"
    by blast
  moreover have "updates (drain (\<lambda>x. x) demo_info (take 2 out_of_order)) = [3, 6]"
    using d by (simp add: drain_def out_of_order_def initial_loop_state_def progress_step_def)
  moreover have "Suc 2 = 3" by simp
  ultimately show ?thesis using d two n t3 by simp
qed

text \<open>
  With an unknown duration the first branch of line 78 is not taken: after a segment
  ending at 5 the coverage is still 0, not the maximum of 0 and 5.
\<close>

theorem coverage_gate_counterexample:
  "last_t (drain (\<lambda>x. x) \<lparr>info_language = None, info_duration = None\<rparr>
             [\<lparr>seg_start = 0, seg_end = 5, seg_text = []\<rparr>])
   \<noteq> max (last_t (drain (\<lambda>x. x) \<lparr>info_language = None, info_duration = None\<rparr> []))
         (seg_end \<lparr>seg_start = 0, seg_end = 5, seg_text = []\<rparr>)"
  by (simp add: drain_def total_duration_def initial_loop_state_def)

section \<open>The text and subtitle renderers\<close>

lemmas eval_text =
  lit_def strip_def isspace_def timestamp_def py_round_def format_0d_def zpad_def
  str_nat.simps digit_char_def Let_def replicate_numeral

lemma strip_Nil: "strip [] = []"
  by (simp add: strip_def)

lemma comprehension_filter_map:
  "[f x. x \<leftarrow> xs, P x] = map f (filter P xs)"
  by (induction xs) simp_all

lemma kept_texts:
  "[strip (seg_text seg). seg \<leftarrow> sgs, seg_text seg \<noteq> [] \<and> strip (seg_text seg) \<noteq> []]
     = filter (\<lambda>t. t \<noteq> []) (map (\<lambda>seg. strip (seg_text seg)) sgs)"
proof -
  have f: "filter (\<lambda>seg. seg_text seg \<noteq> [] \<and> strip (seg_text seg) \<noteq> []) sgs
      = filter (\<lambda>seg. strip (seg_text seg) \<noteq> []) sgs"
    by (rule filter_cong) (auto simp: strip_Nil)
  show ?thesis
    unfolding comprehension_filter_map f by (simp add: filter_map comp_def)
qed

text \<open>
  Claim C3.  The text artifact is the trimmed texts of the segments joined with one
  newline, the segments whose trimmed text is empty being left out: the artifact is the
  same as that of the list without them.  For the two segments of the scenario it is
  \<open>Hello\<close>, a newline, \<open>world\<close>.
\<close>

theorem txt_text_joined:
  "txt_text sgs = join (lit ''\<newline>'')
                    (filter (\<lambda>t. t \<noteq> []) (map (\<lambda>seg. strip (seg_text seg)) sgs))
   \<and> txt_text sgs = txt_text (filter (\<lambda>seg. strip (seg_text seg) \<noteq> []) sgs)
   \<and> txt_text scenario_segments = lit ''Hello\<newline>world''"
proof (intro conjI)
  show "txt_text sgs = join (lit ''\<newline>'')
                    (filter (\<lambda>t. t \<noteq> []) (map (\<lambda>seg. strip (seg_text seg)) sgs))"
    unfolding txt_text_def kept_texts ..
  show "txt_text sgs = txt_text (filter (\<lambda>seg. strip (seg_text seg) \<noteq> []) sgs)"
    unfolding txt_text_def kept_texts by (simp add: filter_map comp_def)
  show "txt_text scenario_segments = lit ''Hello\<newline>world''"
    by (simp add: txt_text_def scenario_segments_def eval_text)
qed

lemma times_in_range_simps [simp]:
  "times_in_range []"
  "times_in_range (seg # sgs) \<longleftrightarrow>
     \<not> float_overflows (seg_start seg * 1000) \<and> \<not> float_overflows (seg_end seg * 1000)
     \<and> times_in_range sgs"
  by (simp_all add: times_in_range_def)

lemma srt_loop_blocks:
  "srt_loop fl i sgs acc
     = (if times_in_range sgs
        then Inr (acc @ concat (map (\<lambda>(k, seg). srt_block fl k seg) (enumerate i sgs)))
        else Inl OverflowError)"
  by (induction sgs arbitrary: i acc) (simp_all add: srt_block_def format_srt_time_timestamp)

lemma length_concat_blocks:
  "length (concat (map (\<lambda>(k, seg). srt_block fl k seg) (enumerate i sgs))) = 4 * length sgs"
  by (induction sgs arbitrary: i) (simp_all add: srt_block_def)

lemma length_srt_block: "length (srt_block fl i seg) = 4"
  by (simp add: srt_block_def)

lemma block_at:
  "k < length sgs \<Longrightarrow>
   take 4 (drop (4 * k) (concat (map (\<lambda>(j, seg). srt_block fl j seg) (enumerate i sgs))))
     = srt_block fl (i + k) (sgs ! k)"
proof (induction sgs arbitrary: i k)
  case Nil
  then show ?case by simp
next
  case (Cons seg rest)
  show ?case
  proof (cases k)
    case 0
    then show ?thesis by (simp add: length_srt_block)
  next
    case (Suc n)
    with Cons.prems have n: "n < length rest" by simp
    have "drop (4 * Suc n) (srt_block fl i seg @ concat (map (\<lambda>(j, seg). srt_block fl j seg)
            (enumerate (Suc i) rest)))
        = drop (4 * n) (concat (map (\<lambda>(j, seg). srt_block fl j seg) (enumerate (Suc i) rest)))"
      by (simp add: length_srt_block)
    with Cons.IH [OF n, of "Suc i"] Suc show ?thesis by simp
  qed
qed

lemma srt_lines_of_blocks:
  "srt_lines_of fl sgs
     = (if times_in_range sgs
        then Inr (concat (map (\<lambda>(i, seg). srt_block fl i seg) (enumerate 1 sgs)))
        else Inl OverflowError)"
  by (simp add: srt_lines_of_def srt_loop_blocks)

lemma srt_text_rendering:
  "srt_text fl sgs
     = (if times_in_range sgs then Inr (srt_rendering fl sgs) else Inl OverflowError)"
  by (simp add: srt_text_def srt_lines_of_blocks srt_rendering_def)

lemma times_in_range_formats:
  "times_in_range sgs \<Longrightarrow> seg \<in> set sgs \<Longrightarrow>
   format_srt_time fl (seg_start seg) = Inr (timestamp fl (seg_start seg))
   \<and> format_srt_time fl (seg_end seg) = Inr (timestamp fl (seg_end seg))"
  by (simp add: times_in_range_def list_all_iff format_srt_time_timestamp)

lemma join_terminated:
  "xs \<noteq> [] \<Longrightarrow> join sep xs @ sep = concat (map (\<lambda>l. l @ sep) xs)"
  by (induction sep xs rule: join.induct) simp_all

text \<open>
  Claim C4.  The lines of the subtitle artifact are, for every segment of the list in
  order and whatever its text, one block of four lines: the 1-based index of the
  segment, the timing line made of the formatted start and the formatted end, the
  trimmed text and an empty line.  The block of the segment at position \<open>k\<close> (counted
  from 0) stands at lines \<open>4k .. 4k+3\<close> and carries the index \<open>k + 1\<close>.  The artifact
  is these lines joined with newlines: every line is followed by a newline, but for the
  last one, the empty line of the last block, which ends the file.  These are the lines
  and the artifact whenever the loop returns, which it does exactly when the formatter
  returns a timestamp for the start and the end of every segment; otherwise the loop
  raises the formatter's exception and there is no artifact.
\<close>

theorem srt_blocks:
  "(times_in_range sgs \<longrightarrow>
      srt_lines_of fl sgs
        = Inr (concat (map (\<lambda>(i, seg). srt_block fl i seg) (enumerate 1 sgs)))
      \<and> srt_text fl sgs
        = Inr (join (lit ''\<newline>'')
                 (concat (map (\<lambda>(i, seg). srt_block fl i seg) (enumerate 1 sgs))))
      \<and> (\<forall>seg\<in>set sgs.
           format_srt_time fl (seg_start seg) = Inr (timestamp fl (seg_start seg))
           \<and> format_srt_time fl (seg_end seg) = Inr (timestamp fl (seg_end seg))))
   \<and> (\<not> times_in_range sgs \<longrightarrow>
        srt_lines_of fl sgs = Inl OverflowError \<and> srt_text fl sgs = Inl OverflowError)
   \<and> length (concat (map (\<lambda>(i, seg). srt_block fl i seg) (enumerate 1 sgs)))
       = 4 * length sgs
   \<and> (\<forall>k<length sgs.
        take 4 (drop (4 * k)
          (concat (map (\<lambda>(i, seg). srt_block fl i seg) (enumerate 1 sgs))))
        = srt_block fl (k + 1) (sgs ! k))
   \<and> (sgs \<noteq> [] \<longrightarrow>
        join (lit ''\<newline>'')
          (concat (map (\<lambda>(i, seg). srt_block fl i seg) (enumerate 1 sgs))) @ lit ''\<newline>''
          = concat (map (\<lambda>l. l @ lit ''\<newline>'')
              (concat (map (\<lambda>(i, seg). srt_block fl i seg) (enumerate 1 sgs)))))"
proof (intro conjI impI)
  assume r: "times_in_range sgs"
  show "srt_lines_of fl sgs
      = Inr (concat (map (\<lambda>(i, seg). srt_block fl i seg) (enumerate 1 sgs)))"
    using r by (simp add: srt_lines_of_blocks)
  show "srt_text fl sgs
      = Inr (join (lit ''\<newline>'')
               (concat (map (\<lambda>(i, seg). srt_block fl i seg) (enumerate 1 sgs))))"
    using r by (simp add: srt_text_rendering srt_rendering_def)
  show "\<forall>seg\<in>set sgs.
      format_srt_time fl (seg_start seg) = Inr (timestamp fl (seg_start seg))
      \<and> format_srt_time fl (seg_end seg) = Inr (timestamp fl (seg_end seg))"
    using r times_in_range_formats by blast
next
  assume "\<not> times_in_range sgs"
  then show "srt_lines_of fl sgs = Inl OverflowError" "srt_text fl sgs = Inl OverflowError"
    by (simp_all add: srt_lines_of_blocks srt_text_rendering)
next
  show len: "length (concat (map (\<lambda>(i, seg). srt_block fl i seg) (enumerate 1 sgs)))
      = 4 * length sgs"
    by (rule length_concat_blocks)
  show "\<forall>k<length sgs.
      take 4 (drop (4 * k)
        (concat (map (\<lambda>(i, seg). srt_block fl i seg) (enumerate 1 sgs))))
      = srt_block fl (k + 1) (sgs ! k)"
    by (simp add: block_at)
  assume "sgs \<noteq> []"
  then have "length (concat (map (\<lambda>(i, seg). srt_block fl i seg) (enumerate 1 sgs))) \<noteq> 0"
    unfolding len by simp
  then have "concat (map (\<lambda>(i, seg). srt_block fl i seg) (enumerate 1 sgs)) \<noteq> []"
    unfolding length_0_conv .
  then show "join (lit ''\<newline>'')
        (concat (map (\<lambda>(i, seg). srt_block fl i seg) (enumerate 1 sgs))) @ lit ''\<newline>''
      = concat (map (\<lambda>l. l @ lit ''\<newline>'')
          (concat (map (\<lambda>(i, seg). srt_block fl i seg) (enumerate 1 sgs))))"
    by (rule join_terminated)
qed

lemma times_in_range_scenario: "times_in_range scenario_segments"
  by (simp add: scenario_segments_def float_overflows_def)

text \<open>The subtitle file of the scenario, and its second block.\<close>

theorem srt_blocks_witness:
  "times_in_range scenario_segments
   \<and> srt_text (\<lambda>x. x) scenario_segments
     = Inr (lit ''1\<newline>00:00:00,000 --> 00:00:03,456\<newline>Hello\<newline>\<newline>2\<newline>00:00:04,000 --> 00:00:09,999\<newline>world\<newline>'')
   \<and> (\<exists>srt_lines. srt_lines_of (\<lambda>x. x) scenario_segments = Inr srt_lines
        \<and> take 4 (drop 4 srt_lines)
          = [lit ''2'', lit ''00:00:04,000 --> 00:00:09,999'', lit ''world'', []])"
proof -
  have l: "(1::nat) < length scenario_segments" by (simp add: scenario_segments_def)
  have r: "times_in_range scenario_segments" by (rule times_in_range_scenario)
  note blocks = srt_blocks [of scenario_segments "\<lambda>x. x"]
  note ok = blocks [THEN conjunct1, rule_format, OF r]
  have a: "srt_text (\<lambda>x. x) scenario_segments
      = Inr (join (lit ''\<newline>'')
          (concat (map (\<lambda>(i, seg). srt_block (\<lambda>x. x) i seg) (enumerate 1 scenario_segments))))"
    using ok by blast
  have c: "srt_lines_of (\<lambda>x. x) scenario_segments
      = Inr (concat (map (\<lambda>(i, seg). srt_block (\<lambda>x. x) i seg) (enumerate 1 scenario_segments)))"
    using ok by blast
  have b: "take 4 (drop (4 * 1)
        (concat (map (\<lambda>(i, seg). srt_block (\<lambda>x. x) i seg) (enumerate 1 scenario_segments))))
      = srt_block (\<lambda>x. x) (1 + 1) (scenario_segments ! 1)"
    using blocks [THEN conjunct2, THEN conjunct2, THEN conjunct2, THEN conjunct1] l by blast
  have "srt_text (\<lambda>x. x) scenario_segments
     = Inr (lit ''1\<newline>00:00:00,000 --> 00:00:03,456\<newline>Hello\<newline>\<newline>2\<newline>00:00:04,000 --> 00:00:09,999\<newline>world\<newline>'')"
    unfolding a by (simp add: scenario_segments_def srt_block_def eval_text)
  moreover have "take 4 (drop 4
        (concat (map (\<lambda>(i, seg). srt_block (\<lambda>x. x) i seg) (enumerate 1 scenario_segments))))
     = [lit ''2'', lit ''00:00:04,000 --> 00:00:09,999'', lit ''world'', []]"
    using b by (simp add: scenario_segments_def srt_block_def eval_text)
  ultimately show ?thesis using r c by simp
qed

section \<open>Paths and the stages of the pipeline\<close>



lemma sibling_inject: "sibling p a = sibling p b \<longleftrightarrow> a = b"
  by (simp add: sibling_def)

lemma with_suffix_sibling:
  assumes "47 \<notin> set sfx" and "take 1 sfx = [46]" and "sfx \<noteq> [46]"
  shows "with_suffix p sfx = (if path_name p = [] then Inl ValueError else Inr (sibling p sfx))"
  using assms by (auto simp: with_suffix_def Let_def sibling_def stem_def)

lemma with_suffix_exts:
  "with_suffix p (lit ''.16k_mono.wav'')
     = (if path_name p = [] then Inl ValueError else Inr (wav_path p))"
  "with_suffix p (lit ''.txt'') = (if path_name p = [] then Inl ValueError else Inr (txt_path p))"
  "with_suffix p (lit ''.srt'') = (if path_name p = [] then Inl ValueError else Inr (srt_path p))"
  "with_suffix p (lit ''.json'') = (if path_name p = [] then Inl ValueError else Inr (json_path p))"
  unfolding wav_path_def txt_path_def srt_path_def json_path_def
  by (rule with_suffix_sibling; simp add: lit_def)+

lemma out_paths_distinct:
  "txt_path p \<noteq> srt_path p" "txt_path p \<noteq> json_path p" "srt_path p \<noteq> json_path p"
  "wav_path p \<noteq> txt_path p" "wav_path p \<noteq> srt_path p" "wav_path p \<noteq> json_path p"
  unfolding wav_path_def txt_path_def srt_path_def json_path_def sibling_inject
  by (simp_all add: lit_def)

lemma to_wav_spawn:
  assumes "path_name input \<noteq> []"
  shows "to_wav_16k_mono w fs input =
    (case spawn w fs (ffmpeg_cmd input (wav_path input)) of
       Not_started \<Rightarrow>
         (Inl (FileNotFoundError (lit ''ffmpeg'')), fs, [Run (ffmpeg_cmd input (wav_path input))])
     | Exited status fs' \<Rightarrow>
         (if status \<noteq> 0 then Inl (CalledProcessError status) else Inr (wav_path input), fs',
          [Run (ffmpeg_cmd input (wav_path input))]))"
  using assms
  by (simp add: to_wav_16k_mono_def with_suffix_exts run_def Let_def ffmpeg_cmd_def
      split: proc_result.splits)

lemma to_wav_ok:
  assumes "path_name input \<noteq> []"
    and "spawn w fs (ffmpeg_cmd input (wav_path input)) = Exited 0 fs1"
  shows "to_wav_16k_mono w fs input
    = (Inr (wav_path input), fs1, [Run (ffmpeg_cmd input (wav_path input))])"
  using assms by (simp add: to_wav_spawn)

lemma main_reaches_export:
  assumes "fs0 (resolve w (arg_audio a)) \<noteq> None"
    and "path_name (resolve w (arg_audio a)) \<noteq> []"
    and "spawn w fs0 (ffmpeg_cmd (resolve w (arg_audio a)) (wav_path (resolve w (arg_audio a))))
           = Exited 0 fs1"
    and "load_model w (arg_model a) = None"
    and "transcribe w (arg_model a) fs1 (str_path (wav_path (resolve w (arg_audio a))))
           (arg_language a) = Inr tr"
    and "tr_failure tr = None"
  shows "main w a fs0 =
    export_results w a (resolve w (arg_audio a)) (wav_path (resolve w (arg_audio a)))
      (tr_info tr) (tr_yielded tr)
      \<lparr>raised = None, files = fs1,
       events = events_before_export w a (resolve w (arg_audio a)) tr\<rparr>"
  using assms
  by (auto simp: main_def to_wav_ok Let_def drain_segs events_before_export_def)

lemma write_step_ok:
  assumes "writable w p" and "utf8_encodable data"
  shows "write_step w oc p data
    = \<lparr>raised = None, files = (files oc)(p \<mapsto> Text data),
       events = events oc @ [Write_text p data]\<rparr>"
  using assms by (simp add: write_step_def write_text_def)

lemma write_step_frame: "q \<noteq> p \<Longrightarrow> files (write_step w oc p data) q = files oc q"
  by (simp add: write_step_def write_text_def)

lemma export_ok:
  assumes "path_name input \<noteq> []"
    and "writable w (txt_path input)" and "writable w (srt_path input)"
    and "writable w (json_path input)"
    and "utf8_encodable (txt_text sgs)" and "utf8_encodable (srt_rendering (rounding w) sgs)"
    and "utf8_encodable (json_text (repr w) info (arg_model a) sgs)"
    and "times_in_range sgs"
  shows "export_results w a input wav info sgs oc =
    \<lparr>raised = None,
     files = (files oc)(txt_path input \<mapsto> Text (txt_text sgs),
                        srt_path input \<mapsto> Text (srt_rendering (rounding w) sgs),
                        json_path input \<mapsto> Text (json_text (repr w) info (arg_model a) sgs)),
     events = events oc
       @ [Write_text (txt_path input) (txt_text sgs),
          Write_text (srt_path input) (srt_rendering (rounding w) sgs),
          Write_text (json_path input) (json_text (repr w) info (arg_model a) sgs)]
       @ report input info (txt_path input) (srt_path input) (json_path input) wav\<rparr>"
  using assms
  by (simp add: export_results_def with_suffix_exts write_step_ok srt_text_rendering Let_def)

lemma export_frame:
  assumes "q \<noteq> txt_path input" and "q \<noteq> srt_path input" and "q \<noteq> json_path input"
  shows "files (export_results w a input wav info sgs oc) q = files oc q"
  using assms
  by (simp add: export_results_def with_suffix_exts write_step_frame srt_text_rendering Let_def)

section \<open>Failures before the export, and the flag that does nothing\<close>

lemma is_write_simps [simp]:
  "is_write (Run c) = False" "is_write (Load_model m) = False"
  "is_write (Transcribe_call p b v l) = False" "is_write (Pbar_open t) = False"
  "is_write (Pbar_update u) = False" "is_write Pbar_close = False"
  "is_write (Write_text q d) = True" "is_write (Print s) = False"
  by (simp_all add: is_write_def)

lemma pbar_events_no_write: "list_all (\<lambda>e. \<not> is_write e) (pbar_events info st)"
  by (auto simp: pbar_events_def list_all_iff)

text \<open>
  Claim C7.  If the input file does not exist the run ends at once with the exception
  raised on line 57, Python's \<open>FileNotFoundError\<close> (the specification's usage error),
  and the process exits with status 1.  Nothing has been done to the world: no
  subprocess was started, the model was neither loaded nor called, nothing was written,
  and the file system is the one the run started with.
\<close>

theorem missing_input_fails_first:
  assumes "fs0 (resolve w (arg_audio a)) = None"
  shows "main w a fs0 =
      \<lparr>raised = Some (FileNotFoundError
                        (lit ''File not found: '' @ str_path (resolve w (arg_audio a)))),
       files = fs0, events = []\<rparr>
    \<and> exit_status (main w a fs0) = 1"
  using assms by (simp add: main_def exit_status_def)

text \<open>A run on an empty file system.\<close>

theorem missing_input_fails_first_witness:
  "Map.empty (resolve demo_world (arg_audio demo_args)) = None
   \<and> raised (main demo_world demo_args Map.empty)
       = Some (FileNotFoundError (lit ''File not found: /data/talk.m4a''))
   \<and> events (main demo_world demo_args Map.empty) = []
   \<and> exit_status (main demo_world demo_args Map.empty) = 1"
proof -
  have h: "Map.empty (resolve demo_world (arg_audio demo_args)) = None" by simp
  have s: "lit ''File not found: '' @ str_path (resolve demo_world (arg_audio demo_args))
      = lit ''File not found: /data/talk.m4a''"
    by (simp add: demo_world_def world_for_def demo_args_def str_path_def lit_def)
  from missing_input_fails_first [of Map.empty demo_world demo_args, OF h] s
  show ?thesis by (simp add: exit_status_def)
qed

text \<open>
  Claim C8.  Let the input exist and the decoder succeed, leaving the file system
  \<open>fs1\<close>.  If the model then fails to load, or \<open>transcribe\<close> raises, or the segment
  generator raises after yielding any number of segments, the run ends with that model
  error and exit status 1; the program has written no file (no event of the run is a
  write, and the file system is still \<open>fs1\<close>, as the decoder left it).
\<close>

theorem model_failure_writes_nothing:
  assumes "fs0 (resolve w (arg_audio a)) \<noteq> None"
    and "path_name (resolve w (arg_audio a)) \<noteq> []"
    and "spawn w fs0 (ffmpeg_cmd (resolve w (arg_audio a)) (wav_path (resolve w (arg_audio a))))
           = Exited 0 fs1"
    and "load_model w (arg_model a) = Some msg
         \<or> (load_model w (arg_model a) = None
            \<and> (transcribe w (arg_model a) fs1 (str_path (wav_path (resolve w (arg_audio a))))
                  (arg_language a) = Inl msg
               \<or> (\<exists>tr. transcribe w (arg_model a) fs1
                          (str_path (wav_path (resolve w (arg_audio a)))) (arg_language a) = Inr tr
                        \<and> tr_failure tr = Some msg)))"
  shows "raised (main w a fs0) = Some (ModelError msg)
    \<and> list_all (\<lambda>e. \<not> is_write e) (events (main w a fs0))
    \<and> files (main w a fs0) = fs1
    \<and> exit_status (main w a fs0) = 1"
  using assms
  by (auto simp: main_def to_wav_ok Let_def exit_status_def pbar_events_no_write)

text \<open>
  Claim C9.  A run with \<open>--keep_wav\<close> and the run without it have the same outcome: the
  same exception or none, the same events in the same order and the same files.  In
  both, once the input exists, the waveform path holds at the end what the decoder left
  there: the program never removes or rewrites the intermediate file.
\<close>

theorem keep_wav_ignored:
  "main w (a\<lparr>arg_keep_wav := True\<rparr>) fs0 = main w (a\<lparr>arg_keep_wav := False\<rparr>) fs0
   \<and> (fs0 (resolve w (arg_audio a)) \<noteq> None \<longrightarrow>
        files (main w a fs0) (wav_path (resolve w (arg_audio a)))
          = fst (snd (to_wav_16k_mono w fs0 (resolve w (arg_audio a))))
              (wav_path (resolve w (arg_audio a))))"
proof (intro conjI impI)
  show "main w (a\<lparr>arg_keep_wav := True\<rparr>) fs0 = main w (a\<lparr>arg_keep_wav := False\<rparr>) fs0"
    by (simp add: main_def export_results_def
        cong: prod.case_cong sum.case_cong option.case_cong if_cong)
next
  let ?input = "resolve w (arg_audio a)"
  assume ex: "fs0 ?input \<noteq> None"
  obtain r fs1 ev1 where dec: "to_wav_16k_mono w fs0 ?input = (r, fs1, ev1)"
    by (cases "to_wav_16k_mono w fs0 ?input") auto
  have "files (main w a fs0) (wav_path ?input) = fs1 (wav_path ?input)"
    using ex dec out_paths_distinct [of ?input]
    by (auto simp: main_def Let_def export_frame split: sum.splits option.splits)
  then show "files (main w a fs0) (wav_path ?input)
      = fst (snd (to_wav_16k_mono w fs0 ?input)) (wav_path ?input)"
    by (simp add: dec)
qed

lemma demo_resolve:
  "resolve (world_for p tr) (arg_audio demo_args) = demo_input"
  by (simp add: world_for_def demo_args_def demo_input_def)

lemma demo_input_facts:
  "demo_fs demo_input \<noteq> None" "path_name demo_input \<noteq> []"
  by (simp_all add: demo_fs_def demo_input_def lit_def)

lemma world_for_spawn:
  "spawn (world_for p tr) fs cmd = Exited 0 (fs(wav_path p \<mapsto> Bytes [0, 0]))"
  by (simp add: world_for_def)

text \<open>The generator raises after both segments of the scenario.\<close>

theorem model_failure_writes_nothing_witness:
  "raised (main failing_world demo_args demo_fs) = Some (ModelError (lit ''decoding failed''))
   \<and> list_all (\<lambda>e. \<not> is_write e) (events (main failing_world demo_args demo_fs))
   \<and> files (main failing_world demo_args demo_fs) = demo_fs(wav_path demo_input \<mapsto> Bytes [0, 0])
   \<and> exit_status (main failing_world demo_args demo_fs) = 1"
proof -
  have r: "resolve failing_world (arg_audio demo_args) = demo_input"
    by (simp add: failing_world_def demo_resolve)
  have 1: "demo_fs (resolve failing_world (arg_audio demo_args)) \<noteq> None"
    and 2: "path_name (resolve failing_world (arg_audio demo_args)) \<noteq> []"
    by (simp_all add: r demo_input_facts)
  have 3: "spawn failing_world demo_fs
      (ffmpeg_cmd (resolve failing_world (arg_audio demo_args))
         (wav_path (resolve failing_world (arg_audio demo_args))))
      = Exited 0 (demo_fs(wav_path demo_input \<mapsto> Bytes [0, 0]))"
    by (simp add: failing_world_def world_for_spawn)
  have 4: "load_model failing_world (arg_model demo_args) = Some (lit ''decoding failed'')
     \<or> (load_model failing_world (arg_model demo_args) = None
        \<and> (transcribe failing_world (arg_model demo_args)
              (demo_fs(wav_path demo_input \<mapsto> Bytes [0, 0]))
              (str_path (wav_path (resolve failing_world (arg_audio demo_args))))
              (arg_language demo_args) = Inl (lit ''decoding failed'')
           \<or> (\<exists>tr. transcribe failing_world (arg_model demo_args)
                      (demo_fs(wav_path demo_input \<mapsto> Bytes [0, 0]))
                      (str_path (wav_path (resolve failing_world (arg_audio demo_args))))
                      (arg_language demo_args) = Inr tr
                    \<and> tr_failure tr = Some (lit ''decoding failed''))))"
    by (simp add: failing_world_def world_for_def)
  show ?thesis
    by (rule model_failure_writes_nothing [OF 1 2 3 4])
qed

text \<open>In the example world the waveform is still there after a full run.\<close>

theorem keep_wav_ignored_witness:
  "demo_fs (resolve demo_world (arg_audio demo_args)) \<noteq> None
   \<and> main demo_world (demo_args\<lparr>arg_keep_wav := True\<rparr>) demo_fs = main demo_world demo_args demo_fs
   \<and> files (main demo_world demo_args demo_fs) (wav_path demo_input) = Some (Bytes [0, 0])"
proof -
  have r: "resolve demo_world (arg_audio demo_args) = demo_input"
    by (simp add: demo_world_def demo_resolve)
  have 1: "demo_fs (resolve demo_world (arg_audio demo_args)) \<noteq> None"
    by (simp add: r demo_input_facts)
  have d: "to_wav_16k_mono demo_world demo_fs demo_input
      = (Inr (wav_path demo_input), demo_fs(wav_path demo_input \<mapsto> Bytes [0, 0]),
         [Run (ffmpeg_cmd demo_input (wav_path demo_input))])"
    by (rule to_wav_ok) (simp_all add: demo_input_facts demo_world_def world_for_spawn)
  have k: "demo_args\<lparr>arg_keep_wav := False\<rparr> = demo_args" by (simp add: demo_args_def)
  from keep_wav_ignored [of demo_world demo_args demo_fs] 1
  have "main demo_world (demo_args\<lparr>arg_keep_wav := True\<rparr>) demo_fs
        = main demo_world (demo_args\<lparr>arg_keep_wav := False\<rparr>) demo_fs"
    and "files (main demo_world demo_args demo_fs) (wav_path demo_input)
        = fst (snd (to_wav_16k_mono demo_world demo_fs demo_input)) (wav_path demo_input)"
    by (simp_all add: r)
  with 1 show ?thesis by (simp add: d k)
qed

section \<open>Successful runs\<close>

lemma utf8_Nil [simp]: "utf8_encodable []"
  by (simp add: utf8_encodable_def)

lemma utf8_Cons [simp]:
  "utf8_encodable (c # s) \<longleftrightarrow> (c < 55296 \<or> 57343 < c) \<and> utf8_encodable s"
  by (simp add: utf8_encodable_def)

lemma utf8_append [simp]:
  "utf8_encodable (a @ b) \<longleftrightarrow> utf8_encodable a \<and> utf8_encodable b"
  by (simp add: utf8_encodable_def)

lemma utf8_subset: "set t \<subseteq> set s \<Longrightarrow> utf8_encodable s \<Longrightarrow> utf8_encodable t"
  by (auto simp: utf8_encodable_def list_all_iff)

lemma utf8_below: "list_all (\<lambda>c. c < 128) s \<Longrightarrow> utf8_encodable s"
  by (induction s) simp_all

lemma of_char_below: "(of_char c :: nat) < 256"
proof -
  have "(of_char c :: nat) mod 256 < 256" by simp
  then show ?thesis by simp
qed

lemma utf8_lit [simp]: "utf8_encodable (lit s)"
proof (induction s)
  case Nil
  then show ?case by (simp add: lit_def)
next
  case (Cons c s)
  have "(of_char c :: nat) < 55296" by (rule less_trans [OF of_char_below]) simp
  with Cons show ?case by (simp add: lit_def)
qed

lemma utf8_replicate [simp]: "c < 55296 \<Longrightarrow> utf8_encodable (replicate n c)"
  by (induction n) simp_all

lemma utf8_newline_indent [simp]: "utf8_encodable (newline_indent level)"
  by (simp add: newline_indent_def)

lemma utf8_escape_char:
  "c < 55296 \<or> 57343 < c \<Longrightarrow> utf8_encodable (escape_char c)"
  by (auto simp: escape_char_def hex_digit_def)

lemma utf8_concat: "list_all utf8_encodable xs \<Longrightarrow> utf8_encodable (concat xs)"
  by (induction xs) simp_all

lemma utf8_basestring [simp]:
  "utf8_encodable s \<Longrightarrow> utf8_encodable (py_encode_basestring s)"
  by (induction s) (simp_all add: py_encode_basestring_def utf8_escape_char)

lemma utf8_join:
  "utf8_encodable sep \<Longrightarrow> list_all utf8_encodable xs \<Longrightarrow> utf8_encodable (join sep xs)"
  by (induction sep xs rule: join.induct) simp_all

lemma utf8_strip: "utf8_encodable s \<Longrightarrow> utf8_encodable (strip s)"
proof (rule utf8_subset)
  show "set (strip s) \<subseteq> set s"
    by (auto simp: strip_def dest!: set_dropWhileD)
qed

lemma utf8_str_nat [simp]: "utf8_encodable (str_nat n)"
proof (rule utf8_below)
  have "list_all (\<lambda>c. c < 128) s" if "list_all is_digit s" for s
    using that by (induction s) (simp_all add: is_digit_def)
  then show "list_all (\<lambda>c. c < 128) (str_nat n)" using str_nat_digits by blast
qed

lemma utf8_format_0d [simp]: "utf8_encodable (format_0d w n)"
  by (simp add: format_0d_def zpad_def)

lemma utf8_timestamp [simp]: "utf8_encodable (timestamp fl t)"
  by (simp add: timestamp_def Let_def)

lemma utf8_txt_text:
  assumes "list_all (\<lambda>s. utf8_encodable (seg_text s)) sgs"
  shows "utf8_encodable (txt_text sgs)"
  unfolding txt_text_def kept_texts using assms
  by (intro utf8_join) (auto simp: list_all_iff utf8_strip)

lemma utf8_srt_rendering:
  assumes "list_all (\<lambda>s. utf8_encodable (seg_text s)) sgs"
  shows "utf8_encodable (srt_rendering fl sgs)"
proof -
  have "list_all utf8_encodable (concat (map (\<lambda>(i, seg). srt_block fl i seg) (enumerate n sgs)))"
    for n
    using assms by (induction sgs arbitrary: n) (simp_all add: srt_block_def utf8_strip)
  then show ?thesis
    unfolding srt_rendering_def by (intro utf8_join) simp_all
qed

lemma utf8_segment_entry:
  assumes "\<And>x. utf8_encodable (fr x)" and "utf8_encodable (seg_text s)"
  shows "utf8_encodable (json_encode fr level (segment_entry s))"
  using assms by (simp add: segment_entry_def utf8_strip)

lemma utf8_json_text:
  assumes fr: "\<And>x. utf8_encodable (fr x)"
    and lang: "case info_language info of None \<Rightarrow> True | Some l \<Rightarrow> utf8_encodable l"
    and model: "utf8_encodable model"
    and texts: "list_all (\<lambda>s. utf8_encodable (seg_text s)) sgs"
  shows "utf8_encodable (json_text fr info model sgs)"
proof -
  have l: "utf8_encodable (json_encode fr 1 (opt_string (info_language info)))"
    using lang by (simp add: opt_string_def split: option.splits)
  have d: "utf8_encodable (json_encode fr 1 (opt_number (info_duration info)))"
    using fr by (simp add: opt_number_def split: option.splits)
  have s: "utf8_encodable (json_encode fr 1 (JArray (map segment_entry sgs)))"
    using texts fr by (auto intro!: utf8_join simp: list_all_iff utf8_segment_entry)
  show ?thesis
    using l d s model by (simp add: json_text_def json_dumps_def json_data_def)
qed

lemma export_raised_None:
  assumes "raised (export_results w a input wav info sgs oc) = None"
  shows "export_results w a input wav info sgs oc =
    \<lparr>raised = None,
     files = (files oc)(txt_path input \<mapsto> Text (txt_text sgs),
                        srt_path input \<mapsto> Text (srt_rendering (rounding w) sgs),
                        json_path input \<mapsto> Text (json_text (repr w) info (arg_model a) sgs)),
     events = events oc
       @ [Write_text (txt_path input) (txt_text sgs),
          Write_text (srt_path input) (srt_rendering (rounding w) sgs),
          Write_text (json_path input) (json_text (repr w) info (arg_model a) sgs)]
       @ report input info (txt_path input) (srt_path input) (json_path input) wav\<rparr>"
proof -
  have n: "path_name input \<noteq> []"
    using assms by (auto simp: export_results_def with_suffix_exts)
  have t: "writable w (txt_path input) \<and> utf8_encodable (txt_text sgs)"
    using assms n
    by (auto simp: export_results_def with_suffix_exts write_step_def write_text_def Let_def
        split: if_splits)
  then have r: "times_in_range sgs"
    using assms n
    by (auto simp: export_results_def with_suffix_exts write_step_def write_text_def Let_def
        srt_text_rendering split: if_splits)
  with t have s: "writable w (srt_path input) \<and> utf8_encodable (srt_rendering (rounding w) sgs)"
    using assms n
    by (auto simp: export_results_def with_suffix_exts write_step_def write_text_def Let_def
        srt_text_rendering split: if_splits)
  with t r have "writable w (json_path input)
      \<and> utf8_encodable (json_text (repr w) info (arg_model a) sgs)"
    using assms n
    by (auto simp: export_results_def with_suffix_exts write_step_def write_text_def Let_def
        srt_text_rendering split: if_splits)
  with n t r s show ?thesis by (simp add: export_ok)
qed

lemma main_success:
  assumes "input = resolve w (arg_audio a)"
    and "fs0 input \<noteq> None" and "path_name input \<noteq> []"
    and "spawn w fs0 (ffmpeg_cmd input (wav_path input)) = Exited 0 fs1"
    and "load_model w (arg_model a) = None"
    and "transcribe w (arg_model a) fs1 (str_path (wav_path input)) (arg_language a) = Inr tr"
    and "tr_failure tr = None"
    and "writable w (txt_path input)" and "writable w (srt_path input)"
    and "writable w (json_path input)"
    and "\<And>x. utf8_encodable (repr w x)"
    and "case info_language (tr_info tr) of None \<Rightarrow> True | Some l \<Rightarrow> utf8_encodable l"
    and "utf8_encodable (arg_model a)"
    and "list_all (\<lambda>s. utf8_encodable (seg_text s)) (tr_yielded tr)"
    and "times_in_range (tr_yielded tr)"
  shows "main w a fs0 =
    \<lparr>raised = None,
     files = fs1(txt_path input \<mapsto> Text (txt_text (tr_yielded tr)),
                 srt_path input \<mapsto> Text (srt_rendering (rounding w) (tr_yielded tr)),
                 json_path input \<mapsto>
                   Text (json_text (repr w) (tr_info tr) (arg_model a) (tr_yielded tr))),
     events = events_before_export w a input tr
       @ [Write_text (txt_path input) (txt_text (tr_yielded tr)),
          Write_text (srt_path input) (srt_rendering (rounding w) (tr_yielded tr)),
          Write_text (json_path input)
            (json_text (repr w) (tr_info tr) (arg_model a) (tr_yielded tr))]
       @ report input (tr_info tr) (txt_path input) (srt_path input) (json_path input)
           (wav_path input)\<rparr>"
proof -
  have "main w a fs0 =
    export_results w a input (wav_path input) (tr_info tr) (tr_yielded tr)
      \<lparr>raised = None, files = fs1, events = events_before_export w a input tr\<rparr>"
    unfolding assms(1) using assms(2-7) [unfolded assms(1)] by (rule main_reaches_export)
  also have "\<dots> = \<lparr>raised = None,
     files = fs1(txt_path input \<mapsto> Text (txt_text (tr_yielded tr)),
                 srt_path input \<mapsto> Text (srt_rendering (rounding w) (tr_yielded tr)),
                 json_path input \<mapsto>
                   Text (json_text (repr w) (tr_info tr) (arg_model a) (tr_yielded tr))),
     events = events_before_export w a input tr
       @ [Write_text (txt_path input) (txt_text (tr_yielded tr)),
          Write_text (srt_path input) (srt_rendering (rounding w) (tr_yielded tr)),
          Write_text (json_path input)
            (json_text (repr w) (tr_info tr) (arg_model a) (tr_yielded tr))]
       @ report input (tr_info tr) (txt_path input) (srt_path input) (json_path input)
           (wav_path input)\<rparr>"
    using assms(3,8-15)
    by (simp add: export_ok utf8_txt_text utf8_srt_rendering utf8_json_text)
  finally show ?thesis .
qed






lemma world_for_simps [simp]:
  "resolve (world_for p tr) s = Path [lit ''data''] s"
  "spawn (world_for p tr) fs cmd = Exited 0 (fs(wav_path p \<mapsto> Bytes [0, 0]))"
  "load_model (world_for p tr) m = None"
  "transcribe (world_for p tr) m fs wav_name l = Inr tr"
  "writable (world_for p tr) q"
  "rounding (world_for p tr) = (\<lambda>x. x)"
  "repr (world_for p tr) = demo_repr"
  by (simp_all add: world_for_def)

lemma utf8_demo_repr: "utf8_encodable (demo_repr x)"
  by (simp add: demo_repr_def)

lemmas eval_json =
  json_dumps_def opt_string_def opt_number_def py_encode_basestring_def escape_char_def
  newline_indent_def lit_def replicate_numeral demo_repr_def


section \<open>The structured artifact and the output paths\<close>

lemma non_ascii_simps [simp]:
  "non_ascii [] = []"
  "non_ascii (c # s) = (if 128 \<le> c then c # non_ascii s else non_ascii s)"
  "non_ascii (a @ b) = non_ascii a @ non_ascii b"
  by (simp_all add: non_ascii_def)

lemma non_ascii_below: "list_all (\<lambda>c. c < 128) s \<Longrightarrow> non_ascii s = []"
  by (induction s) simp_all

lemma non_ascii_replicate [simp]: "non_ascii (replicate n 32) = []"
  by (induction n) simp_all

lemma non_ascii_newline_indent [simp]: "non_ascii (newline_indent level) = []"
  by (simp add: newline_indent_def)

lemma non_ascii_escape_char: "non_ascii (escape_char c) = (if 128 \<le> c then [c] else [])"
  by (auto simp: escape_char_def hex_digit_def)

lemma non_ascii_basestring [simp]: "non_ascii (py_encode_basestring s) = non_ascii s"
proof -
  have "non_ascii (concat (map escape_char s)) = non_ascii s"
    by (induction s) (simp_all add: non_ascii_escape_char)
  then show ?thesis by (simp add: py_encode_basestring_def)
qed

lemma non_ascii_join:
  "non_ascii sep = [] \<Longrightarrow> non_ascii (join sep xs) = concat (map non_ascii xs)"
  by (induction sep xs rule: join.induct) simp_all

lemma non_ascii_segment_entry:
  assumes "\<And>x. non_ascii (fr x) = []"
  shows "non_ascii (json_encode fr level (segment_entry s)) = non_ascii (strip (seg_text s))"
  using assms by (simp add: segment_entry_def lit_def)

lemma non_ascii_opt_string:
  "non_ascii (json_encode fr level (opt_string v))
     = non_ascii (case v of None \<Rightarrow> [] | Some l \<Rightarrow> l)"
  by (simp add: opt_string_def lit_def split: option.splits)

lemma non_ascii_opt_number:
  assumes "\<And>x. non_ascii (fr x) = []"
  shows "non_ascii (json_encode fr level (opt_number v)) = []"
  using assms by (simp add: opt_number_def lit_def split: option.splits)

lemma non_ascii_entries:
  assumes "\<And>x. non_ascii (fr x) = []"
  shows "non_ascii (json_encode fr level (JArray (map segment_entry sgs)))
    = concat (map (\<lambda>s. non_ascii (strip (seg_text s))) sgs)"
  using assms by (simp add: non_ascii_join non_ascii_segment_entry comp_def lit_def)

lemma non_ascii_json_text:
  assumes fr: "\<And>x. non_ascii (fr x) = []"
  shows "non_ascii (json_text fr info model sgs)
    = non_ascii (case info_language info of None \<Rightarrow> [] | Some l \<Rightarrow> l)
      @ non_ascii model
      @ concat (map (\<lambda>s. non_ascii (strip (seg_text s))) sgs)"
proof -
  have keys: "non_ascii (lit ''detected_language'') = []" "non_ascii (lit ''duration'') = []"
    "non_ascii (lit ''model'') = []" "non_ascii (lit ''segments'') = []"
    "non_ascii (lit '': '') = []" "non_ascii (lit '','') = []"
    "non_ascii (lit ''{'') = []" "non_ascii (lit ''}'') = []"
    by (simp_all add: lit_def)
  show ?thesis
    unfolding json_text_def json_dumps_def json_data_def
    by (simp add: non_ascii_join keys non_ascii_opt_string non_ascii_opt_number [OF fr]
        non_ascii_entries [OF fr] del: json_encode.simps(4))
qed

text \<open>
  Claim C6.  After a successful run the structured file holds the serialization of one
  object with the keys \<open>detected_language\<close>, \<open>duration\<close>, \<open>model\<close> and \<open>segments\<close>, in
  this order: the language and the duration reported by the model, the model name given
  on the command line, and one entry per collected segment, in order, with the keys
  \<open>start\<close>, \<open>end\<close> and \<open>text\<close>, the text trimmed.  The file is the one whose name is
  the input's with the suffix \<open>.json\<close>.  The serializer copies every code point from
  U+0080 on unchanged, so that the non-ASCII code points of the file are exactly those
  of the language code, the model name and the trimmed texts, in this order (numbers
  being written in ASCII).  The layout, one item per line indented by two spaces per
  level, is the encoder defined above.
\<close>

theorem json_artifact:
  assumes "input = resolve w (arg_audio a)"
    and "fs0 input \<noteq> None" and "path_name input \<noteq> []"
    and "spawn w fs0 (ffmpeg_cmd input (wav_path input)) = Exited 0 fs1"
    and "load_model w (arg_model a) = None"
    and "transcribe w (arg_model a) fs1 (str_path (wav_path input)) (arg_language a) = Inr tr"
    and "tr_failure tr = None"
    and "raised (main w a fs0) = None"
  shows "files (main w a fs0) (json_path input)
      = Some (Text (json_dumps (repr w)
          (JObject
            [(lit ''detected_language'', opt_string (info_language (tr_info tr))),
             (lit ''duration'', opt_number (info_duration (tr_info tr))),
             (lit ''model'', JString (arg_model a)),
             (lit ''segments'',
              JArray (map (\<lambda>s. JObject [(lit ''start'', JNumber (seg_start s)),
                                          (lit ''end'', JNumber (seg_end s)),
                                          (lit ''text'', JString (strip (seg_text s)))])
                        (tr_yielded tr)))])))
    \<and> with_suffix input (lit ''.json'') = Inr (json_path input)
    \<and> (\<forall>c. 128 \<le> c \<longrightarrow> escape_char c = [c])
    \<and> (\<forall>s. non_ascii (py_encode_basestring s) = non_ascii s)
    \<and> ((\<forall>x. non_ascii (repr w x) = []) \<longrightarrow>
         non_ascii (json_text (repr w) (tr_info tr) (arg_model a) (tr_yielded tr))
           = non_ascii (case info_language (tr_info tr) of None \<Rightarrow> [] | Some l \<Rightarrow> l)
             @ non_ascii (arg_model a)
             @ concat (map (\<lambda>s. non_ascii (strip (seg_text s))) (tr_yielded tr)))"
proof (intro conjI allI impI)
  have m: "main w a fs0 =
    export_results w a input (wav_path input) (tr_info tr) (tr_yielded tr)
      \<lparr>raised = None, files = fs1, events = events_before_export w a input tr\<rparr>"
    unfolding assms(1) using assms(2-7) [unfolded assms(1)] by (rule main_reaches_export)
  have "raised (export_results w a input (wav_path input) (tr_info tr) (tr_yielded tr)
      \<lparr>raised = None, files = fs1, events = events_before_export w a input tr\<rparr>) = None"
    using assms(8) m by simp
  from export_raised_None [OF this] m
  have "files (main w a fs0) (json_path input)
      = Some (Text (json_text (repr w) (tr_info tr) (arg_model a) (tr_yielded tr)))"
    by simp
  then show "files (main w a fs0) (json_path input)
      = Some (Text (json_dumps (repr w)
          (JObject
            [(lit ''detected_language'', opt_string (info_language (tr_info tr))),
             (lit ''duration'', opt_number (info_duration (tr_info tr))),
             (lit ''model'', JString (arg_model a)),
             (lit ''segments'',
              JArray (map (\<lambda>s. JObject [(lit ''start'', JNumber (seg_start s)),
                                          (lit ''end'', JNumber (seg_end s)),
                                          (lit ''text'', JString (strip (seg_text s)))])
                        (tr_yielded tr)))])))"
    by (simp add: json_text_def json_data_def segment_entry_def [abs_def])
next
  show "with_suffix input (lit ''.json'') = Inr (json_path input)"
    using assms(3) by (simp add: with_suffix_exts)
next
  fix c :: nat assume "128 \<le> c"
  then show "escape_char c = [c]" by (simp add: escape_char_def)
next
  fix s show "non_ascii (py_encode_basestring s) = non_ascii s" by simp
next
  assume "\<forall>x. non_ascii (repr w x) = []"
  then show "non_ascii (json_text (repr w) (tr_info tr) (arg_model a) (tr_yielded tr))
           = non_ascii (case info_language (tr_info tr) of None \<Rightarrow> [] | Some l \<Rightarrow> l)
             @ non_ascii (arg_model a)
             @ concat (map (\<lambda>s. non_ascii (strip (seg_text s))) (tr_yielded tr))"
    by (simp add: non_ascii_json_text)
qed

lemma world_for_run:
  assumes p: "p = Path [lit ''data''] (arg_audio a)"
    and ex: "fs0 p \<noteq> None" and nm: "arg_audio a \<noteq> []"
    and nf: "tr_failure tr = None"
    and lang: "case info_language (tr_info tr) of None \<Rightarrow> True | Some l \<Rightarrow> utf8_encodable l"
    and model: "utf8_encodable (arg_model a)"
    and texts: "list_all (\<lambda>s. utf8_encodable (seg_text s)) (tr_yielded tr)"
    and rng: "times_in_range (tr_yielded tr)"
  shows "main (world_for p tr) a fs0 =
    \<lparr>raised = None,
     files = (fs0(wav_path p \<mapsto> Bytes [0, 0]))
               (txt_path p \<mapsto> Text (txt_text (tr_yielded tr)),
                srt_path p \<mapsto> Text (srt_rendering (\<lambda>x. x) (tr_yielded tr)),
                json_path p \<mapsto>
                  Text (json_text demo_repr (tr_info tr) (arg_model a) (tr_yielded tr))),
     events = events_before_export (world_for p tr) a p tr
       @ [Write_text (txt_path p) (txt_text (tr_yielded tr)),
          Write_text (srt_path p) (srt_rendering (\<lambda>x. x) (tr_yielded tr)),
          Write_text (json_path p)
            (json_text demo_repr (tr_info tr) (arg_model a) (tr_yielded tr))]
       @ report p (tr_info tr) (txt_path p) (srt_path p) (json_path p) (wav_path p)\<rparr>"
proof -
  have r: "p = resolve (world_for p tr) (arg_audio a)" by (simp add: p)
  have "path_name p \<noteq> []" using nm by (simp add: p)
  from main_success [of p "world_for p tr" a fs0 "fs0(wav_path p \<mapsto> Bytes [0, 0])" tr,
      OF r ex this _ _ _ nf _ _ _ _ lang model texts rng]
  show ?thesis by (simp add: utf8_demo_repr)
qed

lemma scenario_texts: "list_all (\<lambda>s. utf8_encodable (seg_text s)) scenario_segments"
  by (simp add: scenario_segments_def)

lemma demo_run:
  "main demo_world demo_args demo_fs =
    \<lparr>raised = None,
     files = (demo_fs(wav_path demo_input \<mapsto> Bytes [0, 0]))
               (txt_path demo_input \<mapsto> Text (txt_text scenario_segments),
                srt_path demo_input \<mapsto> Text (srt_rendering (\<lambda>x. x) scenario_segments),
                json_path demo_input \<mapsto>
                  Text (json_text demo_repr demo_info (lit ''small'') scenario_segments)),
     events = events_before_export demo_world demo_args demo_input demo_transcription
       @ [Write_text (txt_path demo_input) (txt_text scenario_segments),
          Write_text (srt_path demo_input) (srt_rendering (\<lambda>x. x) scenario_segments),
          Write_text (json_path demo_input)
            (json_text demo_repr demo_info (lit ''small'') scenario_segments)]
       @ report demo_input demo_info (txt_path demo_input) (srt_path demo_input)
           (json_path demo_input) (wav_path demo_input)\<rparr>"
proof -
  have "main (world_for demo_input demo_transcription) demo_args demo_fs = \<lparr>raised = None,
     files = (demo_fs(wav_path demo_input \<mapsto> Bytes [0, 0]))
               (txt_path demo_input \<mapsto> Text (txt_text (tr_yielded demo_transcription)),
                srt_path demo_input \<mapsto> Text (srt_rendering (\<lambda>x. x) (tr_yielded demo_transcription)),
                json_path demo_input \<mapsto>
                  Text (json_text demo_repr (tr_info demo_transcription) (arg_model demo_args)
                          (tr_yielded demo_transcription))),
     events = events_before_export (world_for demo_input demo_transcription) demo_args demo_input
         demo_transcription
       @ [Write_text (txt_path demo_input) (txt_text (tr_yielded demo_transcription)),
          Write_text (srt_path demo_input) (srt_rendering (\<lambda>x. x) (tr_yielded demo_transcription)),
          Write_text (json_path demo_input)
            (json_text demo_repr (tr_info demo_transcription) (arg_model demo_args)
               (tr_yielded demo_transcription))]
       @ report demo_input (tr_info demo_transcription) (txt_path demo_input)
           (srt_path demo_input) (json_path demo_input) (wav_path demo_input)\<rparr>"
    by (rule world_for_run)
      (simp_all add: demo_input_def demo_args_def demo_fs_def demo_transcription_def
        demo_info_def scenario_texts times_in_range_scenario lit_def)
  then show ?thesis
    by (simp add: demo_world_def demo_transcription_def demo_args_def)
qed

text \<open>The structured file of the scenario.\<close>

theorem json_artifact_witness:
  \<open>files (main demo_world demo_args demo_fs) (json_path demo_input)
     = Some (Text (lit ''{\<newline>  "detected_language": "en",\<newline>  "duration": 10.0,\<newline>  "model": "small",\<newline>  "segments": [\<newline>    {\<newline>      "start": 0.0,\<newline>      "end": 3.456,\<newline>      "text": "Hello"\<newline>    },\<newline>    {\<newline>      "start": 4.0,\<newline>      "end": 9.999,\<newline>      "text": "world"\<newline>    }\<newline>  ]\<newline>}''))
   \<and> escape_char 233 = [233]\<close>
proof -
  have r: "demo_input = resolve demo_world (arg_audio demo_args)"
    by (simp add: demo_world_def demo_args_def demo_input_def)
  have ok: "raised (main demo_world demo_args demo_fs) = None"
    by (simp add: demo_run)
  have j: \<open>json_dumps (repr demo_world)
          (JObject
            [(lit ''detected_language'', opt_string (info_language (tr_info demo_transcription))),
             (lit ''duration'', opt_number (info_duration (tr_info demo_transcription))),
             (lit ''model'', JString (arg_model demo_args)),
             (lit ''segments'',
              JArray (map (\<lambda>s. JObject [(lit ''start'', JNumber (seg_start s)),
                                          (lit ''end'', JNumber (seg_end s)),
                                          (lit ''text'', JString (strip (seg_text s)))])
                        (tr_yielded demo_transcription)))])
     = lit ''{\<newline>  "detected_language": "en",\<newline>  "duration": 10.0,\<newline>  "model": "small",\<newline>  "segments": [\<newline>    {\<newline>      "start": 0.0,\<newline>      "end": 3.456,\<newline>      "text": "Hello"\<newline>    },\<newline>    {\<newline>      "start": 4.0,\<newline>      "end": 9.999,\<newline>      "text": "world"\<newline>    }\<newline>  ]\<newline>}''\<close>
    by (simp add: demo_world_def demo_transcription_def demo_info_def demo_args_def
        scenario_segments_def strip_def isspace_def eval_json)
  note t = json_artifact [of demo_input demo_world demo_args demo_fs
      "demo_fs(wav_path demo_input \<mapsto> Bytes [0, 0])" demo_transcription, OF r _ _ _ _ _ _ ok]
  have "files (main demo_world demo_args demo_fs) (json_path demo_input)
     = Some (Text (json_dumps (repr demo_world)
          (JObject
            [(lit ''detected_language'', opt_string (info_language (tr_info demo_transcription))),
             (lit ''duration'', opt_number (info_duration (tr_info demo_transcription))),
             (lit ''model'', JString (arg_model demo_args)),
             (lit ''segments'',
              JArray (map (\<lambda>s. JObject [(lit ''start'', JNumber (seg_start s)),
                                          (lit ''end'', JNumber (seg_end s)),
                                          (lit ''text'', JString (strip (seg_text s)))])
                        (tr_yielded demo_transcription)))])))
     \<and> (\<forall>c. 128 \<le> c \<longrightarrow> escape_char c = [c])"
    using t by (simp add: demo_input_facts demo_world_def demo_transcription_def)
  then show ?thesis unfolding j by simp
qed

lemma path_suffix_empty_name: "path_name p = [] \<Longrightarrow> path_suffix p = []"
  by (simp add: path_suffix_def rfind_def)








end
